theory Spec2Isabelle
  imports Complex_Main
begin

section \<open>Runtime values of the interpreter\<close>

text \<open>
  The interpreter is TypeScript, but its casts (\<^verbatim>\<open>as AST.Identificator\<close>,
  \<^verbatim>\<open>as AST.ExpressionNode\<close>) are erased: what runs is JavaScript on whatever the
  parser's actions put into a node's \<^verbatim>\<open>children\<close> array. The model is therefore
  untyped, as the running code is.

  Numbers: a JavaScript number is a double of IEEE 754, and the arithmetic of the
  model is that of the doubles: the exact result, rounded to the nearest double.
\<close>

section \<open>Numbers\<close>

text \<open>
  \<open>Fin x\<close> is the finite double of value \<open>x\<close>, the zero among them being the positive
  one; \<open>NZero\<close> is the negative zero.
\<close>

datatype number = Fin real | NZero | PInf | NInf | NaN

fun is_zero :: "number \<Rightarrow> bool" where
  "is_zero (Fin a) = (a = 0)"
| "is_zero NZero = True"
| "is_zero x = False"

fun is_infinite :: "number \<Rightarrow> bool" where
  "is_infinite PInf = True"
| "is_infinite NInf = True"
| "is_infinite x = False"

text \<open>The sign bit, and the value of a finite number.\<close>

fun number_negative :: "number \<Rightarrow> bool" where
  "number_negative (Fin a) = (a < 0)"
| "number_negative NZero = True"
| "number_negative NInf = True"
| "number_negative x = False"

fun number_value :: "number \<Rightarrow> real" where
  "number_value (Fin a) = a"
| "number_value x = 0"

definition signed_zero :: "bool \<Rightarrow> number" where
  "signed_zero negative = (if negative then NZero else Fin 0)"

definition signed_infinity :: "bool \<Rightarrow> number" where
  "signed_infinity negative = (if negative then NInf else PInf)"

subsection \<open>Rounding to the nearest double\<close>

text \<open>The integer nearest to \<open>q\<close>, the even one of the two when \<open>q\<close> is half way.\<close>

definition round_half_even :: "real \<Rightarrow> int" where
  "round_half_even q =
     (let n = \<lfloor>q\<rfloor>; f = q - of_int n
      in if f < 1 / 2 then n else if 1 / 2 < f then n + 1 else if even n then n else n + 1)"

text \<open>
  The exponent of the binade of \<open>r\<close>: that of the power of 2 at or under \<open>\<bar>r\<bar>\<close>, and
  \<open>-1022\<close> for the subnormal numbers, which all have the spacing of the smallest
  normal ones.
\<close>

definition binade :: "real \<Rightarrow> int" where
  "binade r = max \<lfloor>log 2 \<bar>r\<bar>\<rfloor> (- 1022)"

text \<open>
  The double nearest to a real \<open>r\<close> that is not zero. The doubles of a binade are the
  multiples of its unit in the last place, 52 binary places under its exponent; a
  rounded value of \<open>2 ^ 1024\<close> or more is an infinity, and one of zero is the zero of
  the sign of \<open>r\<close>.
\<close>

definition round_to_double :: "real \<Rightarrow> number" where
  "round_to_double r =
     (let ulp = 2 powi (binade r - 52);
          v = of_int (round_half_even (r / ulp)) * ulp
      in if 2 ^ 1024 \<le> \<bar>v\<bar> then (if 0 < r then PInf else NInf)
         else if v = 0 then (if 0 \<le> r then Fin 0 else NZero)
         else Fin v)"

lemma round_half_even_of_int: "round_half_even (of_int n) = n"
  by (simp add: round_half_even_def)

lemma round_half_even_close: "\<bar>of_int (round_half_even q) - q\<bar> \<le> 1 / 2"
  unfolding round_half_even_def Let_def by (auto split: if_splits)

lemma two_powr_int: "(2::real) powr (of_int e) = 2 powi e"
  by (rule powr_real_of_int') simp_all

lemma floor_log2_eq:
  assumes "2 powi e \<le> \<bar>r\<bar>" and "\<bar>r\<bar> < 2 powi (e + 1)"
  shows "\<lfloor>log 2 \<bar>r\<bar>\<rfloor> = e"
proof -
  have "(0::real) < 2 powi e" by simp
  with assms(1) have pos: "0 < \<bar>r\<bar>" by linarith
  have "(2::real) powr (of_int e) \<le> \<bar>r\<bar>"
    using assms(1) by (simp add: two_powr_int)
  moreover have "\<bar>r\<bar> < (2::real) powr (of_int (e + 1))"
    using assms(2) by (simp only: two_powr_int)
  ultimately show ?thesis
    using pos by (subst floor_log_eq_powr_iff) simp_all
qed

lemma floor_log2_bounds:
  assumes "r \<noteq> 0"
  shows "2 powi \<lfloor>log 2 \<bar>r\<bar>\<rfloor> \<le> \<bar>r\<bar>" and "\<bar>r\<bar> < 2 powi (\<lfloor>log 2 \<bar>r\<bar>\<rfloor> + 1)"
proof -
  have pos: "0 < \<bar>r\<bar>" using assms by simp
  have "(2::real) powr (of_int \<lfloor>log 2 \<bar>r\<bar>\<rfloor>) \<le> \<bar>r\<bar>
      \<and> \<bar>r\<bar> < (2::real) powr (of_int (\<lfloor>log 2 \<bar>r\<bar>\<rfloor> + 1))"
    using floor_log_eq_powr_iff [of "\<bar>r\<bar>" 2 "\<lfloor>log 2 \<bar>r\<bar>\<rfloor>"] pos by simp
  then show "2 powi \<lfloor>log 2 \<bar>r\<bar>\<rfloor> \<le> \<bar>r\<bar>" and "\<bar>r\<bar> < 2 powi (\<lfloor>log 2 \<bar>r\<bar>\<rfloor> + 1)"
    by (simp_all only: two_powr_int)
qed

text \<open>Rounding in a binade whose exponent is known.\<close>

lemma round_to_double_binade:
  assumes lo: "2 powi e \<le> \<bar>r\<bar>" and hi: "\<bar>r\<bar> < 2 powi (e + 1)"
    and e: "- 1022 \<le> e" "e \<le> 1022"
  shows "round_to_double r = Fin (of_int (round_half_even (r / 2 powi (e - 52))) * 2 powi (e - 52))"
proof -
  define ulp :: real where "ulp = 2 powi (e - 52)"
  define n where "n = round_half_even (r / ulp)"
  have ulp_pos: "0 < ulp" by (simp add: ulp_def)
  have b: "binade r = e"
    using floor_log2_eq [OF lo hi] e by (simp add: binade_def)
  have p52: "2 powi e = 2 ^ 52 * ulp"
  proof -
    have "e = 52 + (e - 52)" by simp
    then have "(2::real) powi e = 2 powi (52 + (e - 52))" by (rule arg_cong)
    also have "\<dots> = 2 powi 52 * 2 powi (e - 52)" by (rule power_int_add) simp
    finally show ?thesis by (simp add: ulp_def)
  qed
  have p53: "2 powi (e + 1) = 2 ^ 53 * ulp"
  proof -
    have "e + 1 = 53 + (e - 52)" by simp
    then have "(2::real) powi (e + 1) = 2 powi (53 + (e - 52))" by (rule arg_cong)
    also have "\<dots> = 2 powi 53 * 2 powi (e - 52)" by (rule power_int_add) simp
    finally show ?thesis by (simp add: ulp_def)
  qed
  have q_lo: "2 ^ 52 \<le> \<bar>r / ulp\<bar>"
    using lo ulp_pos unfolding p52 by (simp add: abs_divide le_divide_eq)
  have q_hi: "\<bar>r / ulp\<bar> < 2 ^ 53"
    using hi ulp_pos unfolding p53 by (simp add: abs_divide divide_less_eq)
  have close: "\<bar>of_int n - r / ulp\<bar> \<le> 1 / 2"
    unfolding n_def by (rule round_half_even_close)
  have "(2::real) \<le> 2 ^ 52" by simp
  with q_lo close have n_lo: "(1::real) \<le> \<bar>of_int n\<bar>" by linarith
  have "(2::real) ^ 54 = 2 * 2 ^ 53" "(1::real) \<le> 2 ^ 53" by simp_all
  with q_hi close have n_hi: "\<bar>of_int n :: real\<bar> < 2 ^ 54" by linarith
  have v0: "of_int n * ulp \<noteq> 0" using n_lo ulp_pos by auto
  have "\<bar>of_int n * ulp\<bar> = \<bar>of_int n\<bar> * ulp"
    using ulp_pos by (simp add: abs_mult)
  also have "\<dots> < 2 ^ 54 * ulp"
    using n_hi ulp_pos by simp
  also have "ulp \<le> 2 powi 970"
    unfolding ulp_def using e by (intro power_int_increasing) simp_all
  then have "2 ^ 54 * ulp \<le> 2 ^ 54 * 2 ^ 970" by simp
  also have "(2::real) ^ 54 * 2 ^ 970 = 2 ^ 1024" by (simp flip: power_add)
  finally have small: "\<not> 2 ^ 1024 \<le> \<bar>of_int n * ulp\<bar>" by simp
  show ?thesis
    using v0 small unfolding round_to_double_def Let_def b ulp_def [symmetric] n_def [symmetric]
    by simp
qed

text \<open>An integer under \<open>2 ^ 53\<close> in magnitude, over a power of 2, is a double.\<close>

lemma round_to_double_dyadic:
  assumes m: "m \<noteq> 0" "\<bar>m\<bar> < 2 ^ 53" and j: "j \<le> 1074"
  shows "round_to_double (of_int m / 2 ^ j) = Fin (of_int m / 2 ^ j)"
proof -
  define r :: real where "r = of_int m / 2 ^ j"
  define e where "e = binade r"
  have r0: "r \<noteq> 0" using m by (simp add: r_def)
  have abs_r: "\<bar>r\<bar> = of_int \<bar>m\<bar> / 2 ^ j" by (simp add: r_def abs_divide)
  have "\<bar>r\<bar> < 2 ^ 53 / 2 ^ j"
  proof -
    have "(of_int \<bar>m\<bar> :: real) < 2 ^ 53" using m(2) by (metis of_int_less_numeral_power_cancel_iff)
    then show ?thesis unfolding abs_r by (simp add: divide_strict_right_mono)
  qed
  also have "\<dots> = 2 powi (53 - int j)"
    by (simp add: power_int_diff)
  finally have upper: "\<bar>r\<bar> < 2 powi (53 - int j)" .
  have "(2::real) powi \<lfloor>log 2 \<bar>r\<bar>\<rfloor> < 2 powi (53 - int j)"
    using floor_log2_bounds(1) [OF r0] upper by linarith
  then have "\<lfloor>log 2 \<bar>r\<bar>\<rfloor> < 53 - int j"
    using power_int_increasing [of "53 - int j" "\<lfloor>log 2 \<bar>r\<bar>\<rfloor>" "2::real"]
    by (cases "\<lfloor>log 2 \<bar>r\<bar>\<rfloor> < 53 - int j") simp_all
  with j have e_le: "e \<le> 52 - int j"
    by (simp add: e_def binade_def)
  define k where "k = nat (52 - int j - e)"
  have k: "int k = 52 - int j - e" using e_le by (simp add: k_def)
  have ulp: "(2::real) powi (e - 52) = 1 / (2 ^ j * 2 ^ k)"
  proof -
    have "e - 52 = - int (j + k)" using k by simp
    then have "(2::real) powi (e - 52) = 1 / 2 powi (int (j + k))"
      by (simp only: power_int_minus_divide)
    also have "\<dots> = 1 / (2 ^ j * 2 ^ k)"
      by (simp only: power_int_of_nat power_add)
    finally show ?thesis .
  qed
  have q: "r / 2 powi (e - 52) = of_int (m * 2 ^ k)"
    by (simp add: ulp r_def)
  have v: "of_int (round_half_even (r / 2 powi (e - 52))) * 2 powi (e - 52) = r"
    unfolding q round_half_even_of_int by (simp add: ulp r_def)
  have "\<bar>r\<bar> \<le> of_int \<bar>m\<bar>"
  proof -
    have "(1::real) \<le> 2 ^ j" by simp
    then have "\<bar>real_of_int m\<bar> * 1 \<le> \<bar>real_of_int m\<bar> * 2 ^ j"
      by (intro mult_left_mono) simp_all
    then show ?thesis unfolding abs_r by (simp add: divide_le_eq)
  qed
  also have "(of_int \<bar>m\<bar> :: real) < 2 ^ 53" using m(2) by (metis of_int_less_numeral_power_cancel_iff)
  also have "(2::real) ^ 53 \<le> 2 ^ 1024" by (rule power_increasing) simp_all
  finally have small: "\<not> 2 ^ 1024 \<le> \<bar>r\<bar>" by simp
  show ?thesis
    using v small r0 unfolding round_to_double_def Let_def r_def [symmetric] e_def [symmetric]
    by simp
qed

lemma round_to_double_of_int:
  "m \<noteq> 0 \<Longrightarrow> \<bar>m\<bar> < 2 ^ 53 \<Longrightarrow> round_to_double (of_int m) = Fin (of_int m)"
  using round_to_double_dyadic [of m 0] by simp

lemma round_to_double_1: "round_to_double 1 = Fin 1"
  using round_to_double_of_int [of 1] by simp

lemma round_to_double_numeral:
  "(numeral k :: int) < 2 ^ 53 \<Longrightarrow> round_to_double (numeral k) = Fin (numeral k)"
  using round_to_double_of_int [of "numeral k"] by simp

lemmas round_to_double_simps = round_to_double_1 round_to_double_numeral

text \<open>At and over \<open>2 ^ 1024\<close> the nearest double is an infinity.\<close>

lemma round_to_double_overflow:
  assumes "2 ^ 1024 \<le> \<bar>r\<bar>"
  shows "round_to_double r = signed_infinity (r < 0)"
proof -
  define e where "e = \<lfloor>log 2 \<bar>r\<bar>\<rfloor>"
  define ulp :: real where "ulp = 2 powi (e - 52)"
  define n where "n = round_half_even (r / ulp)"
  have "(0::real) < 2 ^ 1024" by simp
  with assms have r0: "r \<noteq> 0" by auto
  have ulp_pos: "0 < ulp" by (simp add: ulp_def)
  have "(2::real) powi 1024 \<le> \<bar>r\<bar>" using assms by simp
  also have "\<bar>r\<bar> < 2 powi (e + 1)"
    unfolding e_def by (rule floor_log2_bounds(2) [OF r0])
  finally have "1024 < e + 1"
    using power_int_increasing [of "e + 1" 1024 "2::real"] by (cases "1024 < e + 1") simp_all
  then have e: "1024 \<le> e" by simp
  then have b: "binade r = e" by (simp add: binade_def e_def)
  have p52: "2 powi e = 2 ^ 52 * ulp"
  proof -
    have "e = 52 + (e - 52)" by simp
    then have "(2::real) powi e = 2 powi (52 + (e - 52))" by (rule arg_cong)
    also have "\<dots> = 2 powi 52 * 2 powi (e - 52)" by (rule power_int_add) simp
    finally show ?thesis by (simp add: ulp_def)
  qed
  have "2 powi e \<le> \<bar>r\<bar>"
    unfolding e_def by (rule floor_log2_bounds(1) [OF r0])
  then have q_lo: "2 ^ 52 \<le> \<bar>r / ulp\<bar>"
    using ulp_pos unfolding p52 by (simp add: abs_divide le_divide_eq)
  have close: "\<bar>of_int n - r / ulp\<bar> \<le> 1 / 2"
    unfolding n_def by (rule round_half_even_close)
  have "of_int (2 ^ 52) \<le> \<bar>of_int n :: real\<bar>"
  proof -
    have "(2::real) ^ 52 - 1 < \<bar>of_int n\<bar>" using q_lo close by linarith
    then have "(of_int (2 ^ 52 - 1) :: real) < of_int \<bar>n\<bar>" by simp
    then have "2 ^ 52 - 1 < \<bar>n\<bar>" by (simp only: of_int_less_iff)
    then have "2 ^ 52 \<le> \<bar>n\<bar>" by simp
    then have "(of_int (2 ^ 52) :: real) \<le> of_int \<bar>n\<bar>" by (simp only: of_int_le_iff)
    then show ?thesis by simp
  qed
  then have "2 ^ 52 * ulp \<le> \<bar>of_int n\<bar> * ulp"
    using ulp_pos by simp
  then have "2 powi e \<le> \<bar>of_int n * ulp\<bar>"
    using ulp_pos by (simp add: p52 abs_mult)
  moreover have "(2::real) powi 1024 \<le> 2 powi e"
    using e by (intro power_int_increasing) simp_all
  ultimately have big: "2 ^ 1024 \<le> \<bar>of_int n * ulp\<bar>" by simp
  show ?thesis
    using big r0 unfolding round_to_double_def Let_def b ulp_def [symmetric] n_def [symmetric]
    by (auto simp: signed_infinity_def)
qed

text \<open>Three roundings: of a third, at a tie, and past the largest double.\<close>

lemma round_to_double_examples:
  "round_to_double (1 / 3) = Fin (6004799503160661 / 2 ^ 54)"
  "round_to_double (2 ^ 53 + 1) = Fin (2 ^ 53)"
  "round_to_double (2 ^ 512 * 2 ^ 512) = PInf"
proof -
  show "round_to_double (1 / 3) = Fin (6004799503160661 / 2 ^ 54)"
    using round_to_double_binade [of "- 2" "1 / 3"] by (simp add: round_half_even_def)
  show "round_to_double (2 ^ 53 + 1) = Fin (2 ^ 53)"
    using round_to_double_binade [of 53 "2 ^ 53 + 1"] by (simp add: round_half_even_def)
  have "(2::real) ^ 1024 \<le> \<bar>2 ^ 512 * 2 ^ 512\<bar>" by (simp flip: power_add)
  then show "round_to_double (2 ^ 512 * 2 ^ 512) = PInf"
    by (simp only: round_to_double_overflow signed_infinity_def) simp
qed

subsection \<open>Arithmetic\<close>

fun number_neg :: "number \<Rightarrow> number" where
  "number_neg (Fin a) = (if a = 0 then NZero else Fin (- a))"
| "number_neg NZero = Fin 0"
| "number_neg PInf = NInf"
| "number_neg NInf = PInf"
| "number_neg NaN = NaN"

text \<open>
  \<^verbatim>\<open>+\<close>. Two infinities of opposite signs have no sum. A sum that is exactly zero is
  the positive zero, but for the sum of two negative zeros.
\<close>

definition number_add :: "number \<Rightarrow> number \<Rightarrow> number" where
  "number_add x y =
     (if x = NaN \<or> y = NaN then NaN
      else if is_infinite x then (if is_infinite y \<and> x \<noteq> y then NaN else x)
      else if is_infinite y then y
      else if x = NZero \<and> y = NZero then NZero
      else if number_value x + number_value y = 0 then Fin 0
      else round_to_double (number_value x + number_value y))"

text \<open>\<^verbatim>\<open>-\<close>: the sum with the negated right operand.\<close>

definition number_sub :: "number \<Rightarrow> number \<Rightarrow> number" where
  "number_sub x y = number_add x (number_neg y)"

text \<open>\<^verbatim>\<open>*\<close>. The sign of the product is that of the signs, also when it is zero or infinite.\<close>

definition number_mul :: "number \<Rightarrow> number \<Rightarrow> number" where
  "number_mul x y =
     (if x = NaN \<or> y = NaN then NaN
      else if is_infinite x \<or> is_infinite y then
        (if is_zero x \<or> is_zero y then NaN
         else signed_infinity (number_negative x \<noteq> number_negative y))
      else if number_value x * number_value y = 0 then
        signed_zero (number_negative x \<noteq> number_negative y)
      else round_to_double (number_value x * number_value y))"

text \<open>\<^verbatim>\<open>/\<close>.\<close>

definition number_div :: "number \<Rightarrow> number \<Rightarrow> number" where
  "number_div x y =
     (if x = NaN \<or> y = NaN then NaN
      else if is_infinite x then
        (if is_infinite y then NaN
         else signed_infinity (number_negative x \<noteq> number_negative y))
      else if is_infinite y then signed_zero (number_negative x \<noteq> number_negative y)
      else if is_zero y then
        (if is_zero x then NaN
         else signed_infinity (number_negative x \<noteq> number_negative y))
      else if is_zero x then signed_zero (number_negative x \<noteq> number_negative y)
      else round_to_double (number_value x / number_value y))"

text \<open>\<^verbatim>\<open>Math.floor\<close>. The floor of a double is a double.\<close>

fun Math_floor :: "number \<Rightarrow> number" where
  "Math_floor (Fin a) = Fin (of_int \<lfloor>a\<rfloor>)"
| "Math_floor x = x"

text \<open>The integer part of a real, rounding towards zero.\<close>

definition Math_trunc :: "real \<Rightarrow> int" where
  "Math_trunc a = (if 0 \<le> a then \<lfloor>a\<rfloor> else \<lceil>a\<rceil>)"

text \<open>
  \<^verbatim>\<open>%\<close>: the remainder of the division truncated towards zero. It is a double, so
  nothing is rounded, and it has the dividend's sign, also when it is zero.
\<close>

definition number_rem :: "number \<Rightarrow> number \<Rightarrow> number" where
  "number_rem x y =
     (if x = NaN \<or> y = NaN then NaN
      else if is_infinite x \<or> is_zero y then NaN
      else if is_infinite y \<or> is_zero x then x
      else
        let r = number_value x
                  - number_value y * of_int (Math_trunc (number_value x / number_value y))
        in if r = 0 then signed_zero (number_negative x) else Fin r)"

text \<open>\<^verbatim>\<open><\<close>: \<^verbatim>\<open>NaN\<close> is under and over nothing, and the two zeros are the same.\<close>

fun number_less :: "number \<Rightarrow> number \<Rightarrow> bool" where
  "number_less NaN y = False"
| "number_less x NaN = False"
| "number_less PInf y = False"
| "number_less x NInf = False"
| "number_less NInf y = True"
| "number_less x PInf = True"
| "number_less x y = (number_value x < number_value y)"

text \<open>\<^verbatim>\<open>===\<close> on numbers: \<^verbatim>\<open>NaN\<close> is equal to nothing, and the two zeros are equal.\<close>

fun number_strict_eq :: "number \<Rightarrow> number \<Rightarrow> bool" where
  "number_strict_eq NaN y = False"
| "number_strict_eq x NaN = False"
| "number_strict_eq x y = (x = y \<or> is_zero x \<and> is_zero y)"

definition number_less_eq :: "number \<Rightarrow> number \<Rightarrow> bool" where
  "number_less_eq x y = (number_less x y \<or> number_strict_eq x y)"

definition is_integer :: "real \<Rightarrow> bool" where
  "is_integer b = (b = of_int \<lfloor>b\<rfloor>)"

definition is_odd_integer :: "real \<Rightarrow> bool" where
  "is_odd_integer b = (is_integer b \<and> odd \<lfloor>b\<rfloor>)"

text \<open>
  \<^verbatim>\<open>Math.pow\<close>, case by case as the language standard lists them. For a base and an
  exponent that are finite and not zero the standard asks for an approximation of the
  power and leaves its last bit to the implementation: the nearest double is taken.
\<close>

fun Math_pow :: "number \<Rightarrow> number \<Rightarrow> number" where
  "Math_pow x NaN = NaN"
| "Math_pow x NZero = Fin 1"
| "Math_pow x (Fin b) =
     (if b = 0 then Fin 1
      else case x of
        NaN \<Rightarrow> NaN
      | PInf \<Rightarrow> (if 0 < b then PInf else Fin 0)
      | NInf \<Rightarrow>
          (if 0 < b then (if is_odd_integer b then NInf else PInf)
           else (if is_odd_integer b then NZero else Fin 0))
      | NZero \<Rightarrow>
          (if 0 < b then (if is_odd_integer b then NZero else Fin 0)
           else (if is_odd_integer b then NInf else PInf))
      | Fin a \<Rightarrow>
          (if a = 0 then (if 0 < b then Fin 0 else PInf)
           else if is_integer b then round_to_double (a powi \<lfloor>b\<rfloor>)
           else if a < 0 then NaN
           else round_to_double (a powr b)))"
| "Math_pow x PInf =
     (if x = NaN then NaN
      else if is_infinite x then PInf
      else if 1 < \<bar>number_value x\<bar> then PInf
      else if \<bar>number_value x\<bar> = 1 then NaN
      else Fin 0)"
| "Math_pow x NInf =
     (if x = NaN then NaN
      else if is_infinite x then Fin 0
      else if 1 < \<bar>number_value x\<bar> then Fin 0
      else if \<bar>number_value x\<bar> = 1 then NaN
      else PInf)"

text \<open>
  Sums and products that are rounded or overflow, a quotient that is rounded, and
  zeros and remainders with their signs.
\<close>

lemma arithmetic_examples:
  "number_add (Fin (2 ^ 53)) (Fin 1) = Fin (2 ^ 53)"
  "number_sub (Fin (2 ^ 53)) (Fin 1) = Fin (2 ^ 53 - 1)"
  "number_mul (Fin (2 ^ 512)) (Fin (2 ^ 512)) = PInf"
  "Math_pow (Fin (2 ^ 512)) (Fin 2) = PInf"
  "number_div (Fin 1) (Fin 3) = Fin (6004799503160661 / 2 ^ 54)"
  "number_mul (Fin 0) (Fin (- 1)) = NZero"
  "number_rem (Fin (- 4)) (Fin 2) = NZero"
  "number_rem (Fin (- 7)) (Fin 2) = Fin (- 1)"
proof -
  show "number_add (Fin (2 ^ 53)) (Fin 1) = Fin (2 ^ 53)"
    using round_to_double_examples(2) by (simp add: number_add_def)
  show "number_sub (Fin (2 ^ 53)) (Fin 1) = Fin (2 ^ 53 - 1)"
    using round_to_double_of_int [of "2 ^ 53 - 1"] by (simp add: number_sub_def number_add_def)
  have big: "(2::real) ^ 1024 \<le> \<bar>2 ^ 512 * 2 ^ 512\<bar>" by (simp flip: power_add)
  show "number_mul (Fin (2 ^ 512)) (Fin (2 ^ 512)) = PInf"
    using round_to_double_overflow [OF big] by (simp add: number_mul_def signed_infinity_def)
  have "(2::real) ^ 1024 \<le> \<bar>(2 ^ 512) powi 2\<bar>" by (simp flip: power_mult)
  then have "round_to_double ((2 ^ 512) powi 2) = PInf"
    by (simp only: round_to_double_overflow signed_infinity_def) simp
  then show "Math_pow (Fin (2 ^ 512)) (Fin 2) = PInf"
    by (simp add: is_integer_def)
  show "number_div (Fin 1) (Fin 3) = Fin (6004799503160661 / 2 ^ 54)"
    using round_to_double_examples(1) by (simp add: number_div_def)
  show "number_mul (Fin 0) (Fin (- 1)) = NZero"
    by (simp add: number_mul_def signed_zero_def)
  show "number_rem (Fin (- 4)) (Fin 2) = NZero"
    by (simp add: number_rem_def signed_zero_def Math_trunc_def)
  show "number_rem (Fin (- 7)) (Fin 2) = Fin (- 1)"
    by (simp add: number_rem_def signed_zero_def Math_trunc_def)
qed

section \<open>Kinds and values\<close>

text \<open>The six kind enumerations of \<^verbatim>\<open>AbstractSyntaxTree\<close>, as the one union type \<^verbatim>\<open>Kind\<close>.\<close>

datatype Kind =
    Command_NIL | Command_DECLARATION_COMMAND | Command_COMMAND_COMMAND | Command_ASSIGNMENT
  | Command_IF | Command_IF_ELSE | Command_WHILE | Command_PRINT
  | Expression_VALUE | Expression_IDENTIFICATOR | Expression_UNARY_OPERATOR
  | Expression_BINARY_OPERATOR | Expression_PARENTHESIS
  | Declaration_NIL | Declaration_CONSTANT | Declaration_VARIABLE
  | Declaration_DECLARATION_DECLARATION
  | Value_BOOLEAN | Value_NUMBER
  | Type_BOOLEAN | Type_NUMBER
  | Operator_UNARY_OPERATOR | Operator_BINARY_OPERATOR

text \<open>The numeric values the enumerations give their members.\<close>

fun kind_code :: "Kind \<Rightarrow> nat" where
  "kind_code Command_NIL = 0"
| "kind_code Command_DECLARATION_COMMAND = 1"
| "kind_code Command_COMMAND_COMMAND = 2"
| "kind_code Command_ASSIGNMENT = 3"
| "kind_code Command_IF = 4"
| "kind_code Command_IF_ELSE = 5"
| "kind_code Command_WHILE = 6"
| "kind_code Command_PRINT = 7"
| "kind_code Expression_VALUE = 9"
| "kind_code Expression_IDENTIFICATOR = 10"
| "kind_code Expression_UNARY_OPERATOR = 11"
| "kind_code Expression_BINARY_OPERATOR = 12"
| "kind_code Expression_PARENTHESIS = 13"
| "kind_code Declaration_NIL = 15"
| "kind_code Declaration_CONSTANT = 16"
| "kind_code Declaration_VARIABLE = 17"
| "kind_code Declaration_DECLARATION_DECLARATION = 18"
| "kind_code Value_BOOLEAN = 20"
| "kind_code Value_NUMBER = 21"
| "kind_code Type_BOOLEAN = 22"
| "kind_code Type_NUMBER = 23"
| "kind_code Operator_UNARY_OPERATOR = 24"
| "kind_code Operator_BINARY_OPERATOR = 25"

text \<open>No two members have the same value: comparing kinds is comparing their numbers.\<close>

lemma kind_code_inj: "kind_code k = kind_code k' \<Longrightarrow> k = k'"
  by (cases k; cases k'; simp)

text \<open>
  A JavaScript value. An object is a node of the tree: its identity (the address
  \<^verbatim>\<open>new\<close> gave it), its \<^verbatim>\<open>kind\<close>, its \<^verbatim>\<open>children\<close> array and its other own
  properties (\<^verbatim>\<open>value\<close>, \<^verbatim>\<open>type\<close>, \<^verbatim>\<open>identificator\<close>, ...) by name. A symbol is
  what \<^verbatim>\<open>Symbol()\<close> returns: the n-th call returns \<open>JSymbol n\<close>.
\<close>

datatype jsval =
    JUndefined
  | JBoolean bool
  | JNumber number
  | JString string
  | JSymbol nat
  | JObject nat Kind "jsval list" "(string \<times> jsval) list"

text \<open>\<^verbatim>\<open>typeof\<close>.\<close>

fun typeof :: "jsval \<Rightarrow> string" where
  "typeof JUndefined = ''undefined''"
| "typeof (JBoolean b) = ''boolean''"
| "typeof (JNumber n) = ''number''"
| "typeof (JString s) = ''string''"
| "typeof (JSymbol l) = ''symbol''"
| "typeof (JObject a k cs ps) = ''object''"

text \<open>
  \<^verbatim>\<open>===\<close>: values of different types are different; two objects are equal when
  they are the same object, whatever they hold.
\<close>

fun strict_eq :: "jsval \<Rightarrow> jsval \<Rightarrow> bool" where
  "strict_eq JUndefined JUndefined = True"
| "strict_eq (JBoolean a) (JBoolean b) = (a = b)"
| "strict_eq (JNumber x) (JNumber y) = number_strict_eq x y"
| "strict_eq (JString s) (JString t) = (s = t)"
| "strict_eq (JSymbol l) (JSymbol m) = (l = m)"
| "strict_eq (JObject a k cs ps) (JObject b k' cs' ps') = (a = b)"
| "strict_eq x y = False"

text \<open>\<^verbatim>\<open>array[i]\<close>, also what a destructuring \<^verbatim>\<open>var [a, b] = array\<close> binds: \<^verbatim>\<open>undefined\<close> past the end.\<close>

definition child :: "jsval list \<Rightarrow> nat \<Rightarrow> jsval" where
  "child cs i = (if i < length cs then cs ! i else JUndefined)"

text \<open>\<^verbatim>\<open>object.name\<close> on an object: \<^verbatim>\<open>undefined\<close> when the object has no such property.\<close>

fun property :: "(string \<times> jsval) list \<Rightarrow> string \<Rightarrow> jsval" where
  "property [] name = JUndefined"
| "property ((n, v) # ps) name = (if n = name then v else property ps name)"

section \<open>Errors\<close>

datatype StaticErrorType =
  UNDEFINED_IDENTIFICATOR | CONSTANT_REASSIGNMENT | WRONG_TYPE | UNKNOWN_DECLARATION

datatype DynamicErrorType =
  DIVISION_BY_ZERO | UNKNOWN_OPERATOR | UNKNOWN_COMMAND | UNKNOWN_EXPRESSION

text \<open>
  What a call can throw: the interpreter's two error classes (their messages are left
  out), the \<^verbatim>\<open>TypeError\<close> of the JavaScript runtime (a property read on
  \<^verbatim>\<open>undefined\<close>, a symbol converted to a number), and a thrown plain value (\<^verbatim>\<open>RHO_0\<close>
  and \<^verbatim>\<open>SIGMA_0\<close> throw the string \<^verbatim>\<open>'undefined'\<close>).
\<close>

datatype error =
    StaticError StaticErrorType
  | DynamicError DynamicErrorType
  | TypeError
  | Thrown jsval

text \<open>\<^verbatim>\<open>error instanceof InterpreterError\<close>.\<close>

fun is_InterpreterError :: "error \<Rightarrow> bool" where
  "is_InterpreterError (StaticError t) = True"
| "is_InterpreterError (DynamicError t) = True"
| "is_InterpreterError e = False"

section \<open>The world outside: printed values and fresh locations\<close>

text \<open>
  \<open>out\<close>: what \<^verbatim>\<open>console.log\<close> has printed so far, oldest first.
  \<open>next_location\<close>: how many times \<^verbatim>\<open>Symbol()\<close> has been called.
\<close>

record world =
  out :: "jsval list"
  next_location :: nat

definition newLocation :: "world \<Rightarrow> jsval \<times> world" where
  "newLocation w = (JSymbol (next_location w), w\<lparr>next_location := Suc (next_location w)\<rparr>)"

definition console_log :: "jsval \<Rightarrow> world \<Rightarrow> world" where
  "console_log v w = w\<lparr>out := out w @ [v]\<rparr>"

section \<open>Environment and store\<close>

type_synonym Rho = "jsval \<Rightarrow> error + jsval"
type_synonym Sigma = "jsval \<Rightarrow> error + jsval"

definition RHO_0 :: Rho where
  "RHO_0 = (\<lambda>_. Inl (Thrown (JString ''undefined'')))"

definition SIGMA_0 :: Sigma where
  "SIGMA_0 = (\<lambda>_. Inl (Thrown (JString ''undefined'')))"

definition isLocation :: "jsval \<Rightarrow> bool" where
  "isLocation v = (typeof v = ''symbol'')"

definition extend :: "(jsval \<Rightarrow> error + 'v) \<Rightarrow> jsval \<Rightarrow> 'v \<Rightarrow> (jsval \<Rightarrow> error + 'v)" where
  "extend m newKey newValue = (\<lambda>key. if strict_eq key newKey then Inr newValue else m key)"

section \<open>Conversions\<close>

text \<open>The value of a decimal digit.\<close>

definition digit_value :: "char \<Rightarrow> nat option" where
  "digit_value c =
     (let n = (of_char c :: nat) in if 48 \<le> n \<and> n \<le> 57 then Some (n - 48) else None)"

text \<open>The value of a string of decimal digits read from the left, after \<open>acc\<close>.\<close>

fun digits_value :: "nat \<Rightarrow> string \<Rightarrow> nat option" where
  "digits_value acc [] = Some acc"
| "digits_value acc (c # cs) =
     (case digit_value c of None \<Rightarrow> None | Some d \<Rightarrow> digits_value (10 * acc + d) cs)"

text \<open>
  The number a string converts to, for the empty string and for unsigned decimal
  literals (digits, at most one point, at least one digit). The lexer's numbers
  (\<^verbatim>\<open>([0-9]+[.])?[0-9]+\<close>) are of this form, and convert to the double nearest to
  their decimal value. Every other string gives \<^verbatim>\<open>NaN\<close>
  here; the signs, exponents, prefixes and blanks that JavaScript also reads are
  left out, and no token of the lexer has them.
\<close>

definition StringToNumber :: "string \<Rightarrow> number" where
  "StringToNumber s =
     (if s = [] then Fin 0
      else
        let ip = takeWhile (\<lambda>c. c \<noteq> CHR ''.'') s;
            fp = drop 1 (dropWhile (\<lambda>c. c \<noteq> CHR ''.'') s)
        in if ip = [] \<and> fp = [] then NaN
           else case (digits_value 0 ip, digits_value 0 fp) of
                  (Some i, Some f) \<Rightarrow>
                    (let v = real i + real f / 10 ^ length fp
                     in if v = 0 then Fin 0 else round_to_double v)
                | _ \<Rightarrow> NaN)"

text \<open>\<^verbatim>\<open>Number(v)\<close>. A node has no \<^verbatim>\<open>valueOf\<close> of its own, so it converts to \<^verbatim>\<open>NaN\<close>.\<close>

fun ToNumber :: "jsval \<Rightarrow> error + number" where
  "ToNumber JUndefined = Inr NaN"
| "ToNumber (JBoolean b) = Inr (Fin (if b then 1 else 0))"
| "ToNumber (JNumber n) = Inr n"
| "ToNumber (JString s) = Inr (StringToNumber s)"
| "ToNumber (JSymbol l) = Inl TypeError"
| "ToNumber (JObject a k cs ps) = Inr NaN"

text \<open>\<^verbatim>\<open>Boolean(v)\<close>.\<close>

fun ToBoolean :: "jsval \<Rightarrow> bool" where
  "ToBoolean JUndefined = False"
| "ToBoolean (JBoolean b) = b"
| "ToBoolean (JNumber n) = (n \<noteq> NaN \<and> \<not> is_zero n)"
| "ToBoolean (JString s) = (s \<noteq> [])"
| "ToBoolean (JSymbol l) = True"
| "ToBoolean (JObject a k cs ps) = True"

section \<open>Expressions: \<^verbatim>\<open>evaluate\<close>\<close>

text \<open>
  The inner \<^verbatim>\<open>switch (valueNode.kind)\<close> of the \<^verbatim>\<open>VALUE\<close> case. It reads
  \<^verbatim>\<open>valueNode.token\<close>. \<open>None\<close>: no case of the inner switch was taken, and control
  goes on into the next case of the outer switch.
\<close>

fun value_case :: "jsval \<Rightarrow> (error + jsval) option" where
  "value_case JUndefined = Some (Inl TypeError)"
| "value_case (JObject a k cs ps) =
     (if k = Value_NUMBER then
        Some (case ToNumber (property ps ''token'') of Inl e \<Rightarrow> Inl e | Inr n \<Rightarrow> Inr (JNumber n))
      else if k = Value_BOOLEAN then
        Some (Inr (JBoolean (ToBoolean (property ps ''token''))))
      else None)"
| "value_case valueNode = None"

text \<open>The \<^verbatim>\<open>IDENTIFICATOR\<close> case: the key is the first child itself.\<close>

definition identificator_case :: "jsval list \<Rightarrow> Rho \<Rightarrow> Sigma \<Rightarrow> error + jsval" where
  "identificator_case children rho sigma =
     (case rho (child children 0) of
        Inl e \<Rightarrow> Inl (StaticError UNDEFINED_IDENTIFICATOR)
      | Inr rhoResult \<Rightarrow> if isLocation rhoResult then sigma rhoResult else Inr rhoResult)"

text \<open>
  The \<^verbatim>\<open>switch (operator)\<close> of the \<^verbatim>\<open>UNARY_OPERATOR\<close> case, which has no default:
  \<open>None\<close> when no case is taken.
\<close>

definition unary_operator :: "jsval \<Rightarrow> jsval \<Rightarrow> (error + jsval) option" where
  "unary_operator operator v =
     (if operator = JString ''!'' then
        Some (case v of JBoolean b \<Rightarrow> Inr (JBoolean (\<not> b)) | _ \<Rightarrow> Inl (StaticError WRONG_TYPE))
      else if operator = JString ''+'' then
        Some (if typeof v = ''number'' then Inr v else Inl (StaticError WRONG_TYPE))
      else if operator = JString ''-'' then
        Some (if typeof v = ''number'' then Inr v else Inl (StaticError WRONG_TYPE))
      else None)"

text \<open>The two nested \<^verbatim>\<open>typeof\<close> guards of the operators on numbers and on booleans.\<close>

fun on_numbers :: "(number \<Rightarrow> number \<Rightarrow> error + jsval) \<Rightarrow> jsval \<Rightarrow> jsval \<Rightarrow> error + jsval" where
  "on_numbers f (JNumber x) (JNumber y) = f x y"
| "on_numbers f v1 v2 = Inl (StaticError WRONG_TYPE)"

fun on_booleans :: "(bool \<Rightarrow> bool \<Rightarrow> error + jsval) \<Rightarrow> jsval \<Rightarrow> jsval \<Rightarrow> error + jsval" where
  "on_booleans f (JBoolean x) (JBoolean y) = f x y"
| "on_booleans f v1 v2 = Inl (StaticError WRONG_TYPE)"

text \<open>The \<^verbatim>\<open>switch (operator)\<close> of the \<^verbatim>\<open>BINARY_OPERATOR\<close> case, in the source's order.\<close>

definition binary_operator :: "jsval \<Rightarrow> jsval \<Rightarrow> jsval \<Rightarrow> error + jsval" where
  "binary_operator operator value1 value2 =
     (if operator = JString ''+'' then
        on_numbers (\<lambda>x y. Inr (JNumber (number_add x y))) value1 value2
      else if operator = JString ''-'' then
        on_numbers (\<lambda>x y. Inr (JNumber (number_sub x y))) value1 value2
      else if operator = JString ''*'' then
        on_numbers (\<lambda>x y. Inr (JNumber (number_mul x y))) value1 value2
      else if operator = JString ''/'' then
        on_numbers (\<lambda>x y. if \<not> number_strict_eq y (Fin 0) then Inr (JNumber (number_div x y))
                           else Inl (DynamicError DIVISION_BY_ZERO)) value1 value2
      else if operator = JString ''=='' then
        (if typeof value1 = typeof value2 then Inr (JBoolean (strict_eq value1 value2))
         else Inl (StaticError WRONG_TYPE))
      else if operator = JString ''!='' then
        (if typeof value1 = typeof value2 then Inr (JBoolean (strict_eq value1 value2))
         else Inl (StaticError WRONG_TYPE))
      else if operator = JString ''<'' then
        on_numbers (\<lambda>x y. Inr (JBoolean (number_less x y))) value1 value2
      else if operator = JString ''>'' then
        on_numbers (\<lambda>x y. Inr (JBoolean (number_less y x))) value1 value2
      else if operator = JString ''<='' then
        on_numbers (\<lambda>x y. Inr (JBoolean (number_less_eq x y))) value1 value2
      else if operator = JString ''>='' then
        on_numbers (\<lambda>x y. Inr (JBoolean (number_less_eq y x))) value1 value2
      else if operator = JString ''&&'' then
        on_booleans (\<lambda>x y. Inr (JBoolean (x \<and> y))) value1 value2
      else if operator = JString ''||'' then
        on_booleans (\<lambda>x y. Inr (JBoolean (x \<or> y))) value1 value2
      else if operator = JString ''//'' then
        on_numbers (\<lambda>x y. if \<not> number_strict_eq y (Fin 0) then Inr (JNumber (Math_floor (number_div x y)))
                           else Inl (DynamicError DIVISION_BY_ZERO)) value1 value2
      else if operator = JString ''%'' then
        on_numbers (\<lambda>x y. if \<not> number_strict_eq y (Fin 0) then Inr (JNumber (number_rem x y))
                           else Inl (DynamicError DIVISION_BY_ZERO)) value1 value2
      else if operator = JString ''^'' then
        on_numbers (\<lambda>x y. Inr (JNumber (Math_pow x y))) value1 value2
      else Inl (DynamicError UNKNOWN_OPERATOR))"

text \<open>
  The \<^verbatim>\<open>BINARY_OPERATOR\<close> case once both operands have been evaluated: the left
  operand's error comes first.
\<close>

definition binary_case :: "error + jsval \<Rightarrow> error + jsval \<Rightarrow> jsval \<Rightarrow> error + jsval" where
  "binary_case r1 r2 operator =
     (case r1 of
        Inl e \<Rightarrow> Inl e
      | Inr value1 \<Rightarrow>
          (case r2 of Inl e \<Rightarrow> Inl e | Inr value2 \<Rightarrow> binary_operator operator value1 value2))"

lemma size_child: "size (child cs i) < Suc (size_list size cs)"
proof (cases "i < length cs")
  case True
  then have "cs ! i \<in> set cs" by simp
  then have "size (cs ! i) \<le> size_list size cs"
    by (rule size_list_estimation') simp
  with True show ?thesis by (simp add: child_def)
next
  case False
  then show ?thesis by (simp add: child_def)
qed

text \<open>
  \<^verbatim>\<open>evaluate\<close>. Reading \<^verbatim>\<open>.kind\<close> of \<^verbatim>\<open>undefined\<close> is a \<^verbatim>\<open>TypeError\<close>; of any other
  value that is not a node it is \<^verbatim>\<open>undefined\<close>, which takes the default case. The
  \<^verbatim>\<open>VALUE\<close> case does not end in a \<^verbatim>\<open>break\<close>, nor does the \<^verbatim>\<open>UNARY_OPERATOR\<close>
  case: when their inner switch takes no case, the next case of the outer switch runs.
\<close>

function evaluate :: "jsval \<Rightarrow> Rho \<Rightarrow> Sigma \<Rightarrow> error + jsval" where
  "evaluate expression rho sigma =
     (case expression of
        JUndefined \<Rightarrow> Inl TypeError
      | JObject a kind children ps \<Rightarrow>
          if kind = Expression_VALUE then
            (case value_case (child children 0) of
               Some r \<Rightarrow> r
             | None \<Rightarrow> identificator_case children rho sigma)
          else if kind = Expression_IDENTIFICATOR then
            identificator_case children rho sigma
          else if kind = Expression_UNARY_OPERATOR then
            (case evaluate (child children 1) rho sigma of
               Inl e \<Rightarrow> Inl e
             | Inr v \<Rightarrow>
                 (case unary_operator (child children 0) v of
                    Some r \<Rightarrow> r
                  | None \<Rightarrow>
                      binary_case (evaluate (child children 0) rho sigma)
                        (evaluate (child children 2) rho sigma) (child children 1)))
          else if kind = Expression_BINARY_OPERATOR then
            binary_case (evaluate (child children 0) rho sigma)
              (evaluate (child children 2) rho sigma) (child children 1)
          else if kind = Expression_PARENTHESIS then
            evaluate (child children 0) rho sigma
          else Inl (DynamicError UNKNOWN_EXPRESSION)
      | _ \<Rightarrow> Inl (DynamicError UNKNOWN_EXPRESSION))"
  by pat_completeness auto
termination
proof (relation "measure (\<lambda>(expression, rho, sigma). size expression)")
  show "wf (measure (\<lambda>(expression, rho, sigma). size expression))" by simp
qed (use size_child in \<open>auto simp: less_Suc_eq_le intro: le_trans trans_le_add1\<close>)

declare evaluate.simps [simp del]

section \<open>Declarations: \<^verbatim>\<open>elaborate\<close>\<close>

text \<open>
  \<^verbatim>\<open>var [identificator, expression] = declaration.children\<close> binds the first two
  children, whatever they are. The location is made before the expression is evaluated.
\<close>

function elaborate :: "jsval \<Rightarrow> Rho \<Rightarrow> Sigma \<Rightarrow> world \<Rightarrow> (error + Rho \<times> Sigma) \<times> world" where
  "elaborate declaration rho sigma w =
     (case declaration of
        JUndefined \<Rightarrow> (Inl TypeError, w)
      | JObject a kind children ps \<Rightarrow>
          if kind = Declaration_NIL then (Inr (rho, sigma), w)
          else if kind = Declaration_VARIABLE then
            (case newLocation w of
               (location, w1) \<Rightarrow>
                 (case evaluate (child children 1) rho sigma of
                    Inl e \<Rightarrow> (Inl e, w1)
                  | Inr v \<Rightarrow>
                      (Inr (extend rho (child children 0) location, extend sigma location v), w1)))
          else if kind = Declaration_CONSTANT then
            (case evaluate (child children 1) rho sigma of
               Inl e \<Rightarrow> (Inl e, w)
             | Inr v \<Rightarrow> (Inr (extend rho (child children 0) v, sigma), w))
          else if kind = Declaration_DECLARATION_DECLARATION then
            (case elaborate (child children 0) rho sigma w of
               (Inl e, w1) \<Rightarrow> (Inl e, w1)
             | (Inr (rho1, sigma1), w1) \<Rightarrow> elaborate (child children 1) rho1 sigma1 w1)
          else (Inl (StaticError UNKNOWN_DECLARATION), w)
      | _ \<Rightarrow> (Inl (StaticError UNKNOWN_DECLARATION), w))"
  by pat_completeness auto
termination
proof (relation "measure (\<lambda>(declaration, rho, sigma, w). size declaration)")
  show "wf (measure (\<lambda>(declaration, rho, sigma, w). size declaration))" by simp
qed (use size_child in \<open>auto simp: less_Suc_eq_le intro: le_trans trans_le_add1\<close>)

declare elaborate.simps [simp del]

section \<open>Commands: \<^verbatim>\<open>execute\<close>\<close>

text \<open>
  A \<^verbatim>\<open>while\<close> may run forever, so \<open>execute\<close> takes fuel: the depth of calls it may
  still make. \<open>None\<close>: the fuel ran out before the call returned or threw. Otherwise
  the store it returned or the error it threw, and the world as it then is (what was
  printed before an error stays printed).
\<close>

fun execute :: "nat \<Rightarrow> jsval \<Rightarrow> Rho \<Rightarrow> Sigma \<Rightarrow> world \<Rightarrow> ((error + Sigma) \<times> world) option" where
  "execute 0 command rho sigma w = None"
| "execute (Suc n) command rho sigma w =
     (case command of
        JUndefined \<Rightarrow> Some (Inl TypeError, w)
      | JObject a kind children ps \<Rightarrow>
          if kind = Command_NIL then Some (Inr sigma, w)
          else if kind = Command_DECLARATION_COMMAND then
            (case elaborate (child children 0) rho sigma w of
               (Inl e, w1) \<Rightarrow> Some (Inl e, w1)
             | (Inr (rho1, sigma1), w1) \<Rightarrow> execute n (child children 1) rho1 sigma1 w1)
          else if kind = Command_COMMAND_COMMAND then
            (case execute n (child children 0) rho sigma w of
               None \<Rightarrow> None
             | Some (Inl e, w1) \<Rightarrow> Some (Inl e, w1)
             | Some (Inr sigma1, w1) \<Rightarrow> execute n (child children 1) rho sigma1 w1)
          else if kind = Command_ASSIGNMENT then
            (case rho (child children 0) of
               Inl e \<Rightarrow> Some (Inl (StaticError UNDEFINED_IDENTIFICATOR), w)
             | Inr rhoResult \<Rightarrow>
                 if isLocation rhoResult then
                   (case evaluate (child children 1) rho sigma of
                      Inl e \<Rightarrow> Some (Inl e, w)
                    | Inr v \<Rightarrow> Some (Inr (extend sigma rhoResult v), w))
                 else Some (Inl (StaticError CONSTANT_REASSIGNMENT), w))
          else if kind = Command_IF then
            (case evaluate (child children 0) rho sigma of
               Inl e \<Rightarrow> Some (Inl e, w)
             | Inr (JBoolean b) \<Rightarrow>
                 if b then execute n (child children 1) rho sigma w else Some (Inr sigma, w)
             | Inr _ \<Rightarrow> Some (Inl (StaticError WRONG_TYPE), w))
          else if kind = Command_IF_ELSE then
            (case evaluate (child children 0) rho sigma of
               Inl e \<Rightarrow> Some (Inl e, w)
             | Inr (JBoolean b) \<Rightarrow>
                 if b then execute n (child children 1) rho sigma w
                 else execute n (child children 2) rho sigma w
             | Inr _ \<Rightarrow> Some (Inl (StaticError WRONG_TYPE), w))
          else if kind = Command_WHILE then
            (case evaluate (child children 0) rho sigma of
               Inl e \<Rightarrow> Some (Inl e, w)
             | Inr (JBoolean b) \<Rightarrow>
                 if b then
                   (case execute n (child children 1) rho sigma w of
                      None \<Rightarrow> None
                    | Some (Inl e, w1) \<Rightarrow> Some (Inl e, w1)
                    | Some (Inr sigma1, w1) \<Rightarrow> execute n command rho sigma1 w1)
                 else Some (Inr sigma, w)
             | Inr _ \<Rightarrow> Some (Inl (StaticError WRONG_TYPE), w))
          else if kind = Command_PRINT then
            (case evaluate (child children 0) rho sigma of
               Inl e \<Rightarrow> Some (Inl e, w)
             | Inr v \<Rightarrow> Some (Inr sigma, console_log v w))
          else Some (Inl (DynamicError UNKNOWN_COMMAND), w)
      | _ \<Rightarrow> Some (Inl (DynamicError UNKNOWN_COMMAND), w))"

declare execute.simps(2) [simp del]

section \<open>\<^verbatim>\<open>run\<close>\<close>

text \<open>
  How a run ends: normally, with an interpreter error that \<^verbatim>\<open>run\<close> catches and
  reports on \<^verbatim>\<open>console.error\<close>, or with anything else thrown, which \<^verbatim>\<open>run\<close> throws again.
\<close>

datatype ending = Completed | Reported error | Uncaught error

definition world_0 :: world where
  "world_0 = \<lparr>out = [], next_location = 0\<rparr>"

text \<open>The printed values of a run and how it ended, when the fuel suffices.\<close>

definition run :: "nat \<Rightarrow> jsval \<Rightarrow> (jsval list \<times> ending) option" where
  "run fuel program =
     (case execute fuel program RHO_0 SIGMA_0 world_0 of
        None \<Rightarrow> None
      | Some (Inr sigma, w) \<Rightarrow> Some (out w, Completed)
      | Some (Inl e, w) \<Rightarrow>
          Some (out w, if is_InterpreterError e then Reported e else Uncaught e))"

section \<open>The nodes the parser builds\<close>

text \<open>
  The node classes of the grammar whose nodes carry a block (the one with
  \<^verbatim>\<open>LET identificator : type = expression\<close> and the parenthesised \<^verbatim>\<open>for\<close>), each
  constructor with the address of the new object first. A grammar action that passes
  no block leaves \<^verbatim>\<open>block\<close> undefined. No class has a property \<^verbatim>\<open>token\<close>.
\<close>

definition CommandNode :: "nat \<Rightarrow> jsval list \<Rightarrow> Kind \<Rightarrow> jsval \<Rightarrow> jsval" where
  "CommandNode a children kind block = JObject a kind children [(''block'', block)]"

definition DeclarationNode :: "nat \<Rightarrow> jsval list \<Rightarrow> Kind \<Rightarrow> jsval \<Rightarrow> jsval" where
  "DeclarationNode a children kind block = JObject a kind children [(''block'', block)]"

definition ExpressionNode :: "nat \<Rightarrow> jsval list \<Rightarrow> Kind \<Rightarrow> jsval \<Rightarrow> jsval" where
  "ExpressionNode a children kind block = JObject a kind children [(''block'', block)]"

definition VALUE_KIND_TO_TYPE :: "Kind \<Rightarrow> jsval" where
  "VALUE_KIND_TO_TYPE kind =
     (if kind = Value_BOOLEAN then JString ''bool''
      else if kind = Value_NUMBER then JString ''num''
      else JUndefined)"

definition ValueNode :: "nat \<Rightarrow> jsval \<Rightarrow> Kind \<Rightarrow> jsval \<Rightarrow> jsval" where
  "ValueNode a v kind block =
     JObject a kind [] [(''block'', block), (''value'', v), (''type'', VALUE_KIND_TO_TYPE kind)]"

definition TypeNode :: "nat \<Rightarrow> Kind \<Rightarrow> jsval \<Rightarrow> jsval" where
  "TypeNode a kind block = JObject a kind [] [(''block'', block)]"

text \<open>The constructor's \<^verbatim>\<open>validate\<close> is left out: the lexer's identifiers pass it.\<close>

definition IdentificatorNode :: "nat \<Rightarrow> string \<Rightarrow> jsval \<Rightarrow> jsval" where
  "IdentificatorNode a identificator block =
     JObject a Expression_IDENTIFICATOR [] [(''block'', block), (''identificator'', JString identificator)]"

text \<open>
  The grammar's actions that the properties below are about. A token's value is its
  text; so is the value of \<^verbatim>\<open>unary_operator\<close> and \<^verbatim>\<open>binary_operator\<close>, which have no
  action of their own.
\<close>

definition value_NUMBER_VALUE :: "nat \<Rightarrow> string \<Rightarrow> jsval" where
  "value_NUMBER_VALUE a text1 = ValueNode a (JString text1) Value_NUMBER JUndefined"

definition value_BOOLEAN_VALUE :: "nat \<Rightarrow> string \<Rightarrow> jsval" where
  "value_BOOLEAN_VALUE a text1 = ValueNode a (JString text1) Value_BOOLEAN JUndefined"

definition identificator_IDENTIFICATOR :: "nat \<Rightarrow> string \<Rightarrow> jsval" where
  "identificator_IDENTIFICATOR a text1 = IdentificatorNode a text1 JUndefined"

definition expression_value :: "nat \<Rightarrow> jsval \<Rightarrow> jsval" where
  "expression_value a v1 = ExpressionNode a [v1] Expression_VALUE JUndefined"

definition expression_identificator :: "nat \<Rightarrow> jsval \<Rightarrow> jsval" where
  "expression_identificator a v1 = ExpressionNode a [v1] Expression_IDENTIFICATOR JUndefined"

definition expression_unary :: "nat \<Rightarrow> jsval \<Rightarrow> jsval \<Rightarrow> jsval" where
  "expression_unary a v1 v2 = ExpressionNode a [v1, v2] Expression_UNARY_OPERATOR JUndefined"

definition expression_binary :: "nat \<Rightarrow> jsval \<Rightarrow> jsval \<Rightarrow> jsval \<Rightarrow> jsval" where
  "expression_binary a v1 v2 v3 = ExpressionNode a [v1, v2, v3] Expression_BINARY_OPERATOR JUndefined"

text \<open>\<^verbatim>\<open>LET identificator : type = expression\<close> and \<^verbatim>\<open>CONST identificator : type = expression\<close>: \<^verbatim>\<open>[$2, $4, $6]\<close>.\<close>

definition declaration_LET :: "nat \<Rightarrow> jsval \<Rightarrow> jsval \<Rightarrow> jsval \<Rightarrow> jsval" where
  "declaration_LET a v2 v4 v6 = DeclarationNode a [v2, v4, v6] Declaration_VARIABLE JUndefined"

definition declaration_CONST :: "nat \<Rightarrow> jsval \<Rightarrow> jsval \<Rightarrow> jsval \<Rightarrow> jsval" where
  "declaration_CONST a v2 v4 v6 = DeclarationNode a [v2, v4, v6] Declaration_CONSTANT JUndefined"

definition single_command_assignment :: "nat \<Rightarrow> jsval \<Rightarrow> jsval \<Rightarrow> jsval" where
  "single_command_assignment a v1 v3 = CommandNode a [v1, v3] Command_ASSIGNMENT JUndefined"

definition single_command_WHILE :: "nat \<Rightarrow> jsval \<Rightarrow> jsval \<Rightarrow> jsval" where
  "single_command_WHILE a v2 v4 = CommandNode a [v2, v4] Command_WHILE JUndefined"

definition single_command_PRINT :: "nat \<Rightarrow> jsval \<Rightarrow> jsval" where
  "single_command_PRINT a v2 = CommandNode a [v2] Command_PRINT JUndefined"

text \<open>
  \<^verbatim>\<open>FOR ( declaration , expression , single_command ) DO command_body\<close>: three new
  nodes, over \<^verbatim>\<open>$3\<close>, \<^verbatim>\<open>$5\<close>, \<^verbatim>\<open>$10\<close> and \<^verbatim>\<open>$7\<close>.
\<close>

definition single_command_FOR :: "nat \<Rightarrow> nat \<Rightarrow> nat \<Rightarrow> jsval \<Rightarrow> jsval \<Rightarrow> jsval \<Rightarrow> jsval \<Rightarrow> jsval" where
  "single_command_FOR a1 a2 a3 v3 v5 v7 v10 =
     CommandNode a1
       [v3,
        CommandNode a2
          [v5, CommandNode a3 [v10, v7] Command_COMMAND_COMMAND JUndefined]
          Command_WHILE JUndefined]
       Command_DECLARATION_COMMAND JUndefined"

section \<open>The other grammar file\<close>

text \<open>
  \<^verbatim>\<open>lexer-parser.ts\<close> holds another grammar, whose nodes have no block. Its
  declarations are \<^verbatim>\<open>LET : type identificator = expression\<close>, children
  \<^verbatim>\<open>[$3, $4, $6]\<close>.
\<close>

definition declaration_LET_type_first :: "nat \<Rightarrow> jsval \<Rightarrow> jsval \<Rightarrow> jsval \<Rightarrow> jsval" where
  "declaration_LET_type_first a v3 v4 v6 = JObject a Declaration_VARIABLE [v3, v4, v6] []"

section \<open>Two constants for the examples\<close>

text \<open>
  Two identifier nodes, and the environment that binds each directly to a value, as
  the elaboration of two \<^verbatim>\<open>const\<close> declarations does. The expressions \<^verbatim>\<open>a\<close> and
  \<^verbatim>\<open>b\<close> hold these very nodes.
\<close>

definition node_a :: jsval where
  "node_a = IdentificatorNode 0 ''a'' JUndefined"

definition node_b :: jsval where
  "node_b = IdentificatorNode 1 ''b'' JUndefined"

definition rho_a_b :: "jsval \<Rightarrow> jsval \<Rightarrow> Rho" where
  "rho_a_b va vb = extend (extend RHO_0 node_a va) node_b vb"

definition expression_a :: jsval where
  "expression_a = expression_identificator 2 node_a"

definition expression_b :: jsval where
  "expression_b = expression_identificator 3 node_b"

text \<open>A store of one location, for the variable \<^verbatim>\<open>a\<close>.\<close>

definition sigma_a :: "jsval \<Rightarrow> Sigma" where
  "sigma_a v = extend SIGMA_0 (JSymbol 0) v"

text \<open>\<^verbatim>\<open>a < b\<close> and \<^verbatim>\<open>{ print a; a = a + b }\<close>.\<close>

definition loop_condition :: jsval where
  "loop_condition = expression_binary 4 expression_a (JString ''<'') expression_b"

definition loop_body :: jsval where
  "loop_body = CommandNode 8
     [single_command_PRINT 5 expression_a,
      single_command_assignment 7 node_a
        (expression_binary 6 expression_a (JString ''+'') expression_b)]
     Command_COMMAND_COMMAND JUndefined"

text \<open>
  A third constant \<^verbatim>\<open>c\<close>, a variable \<^verbatim>\<open>i\<close>, and the loop
  \<^verbatim>\<open>for (let i = a, i < b, i = i + c) do print i\<close>, its declaration with the two
  children that \<^verbatim>\<open>elaborate\<close> reads and the same node at every occurrence of \<^verbatim>\<open>i\<close>.
\<close>

definition node_c :: jsval where
  "node_c = IdentificatorNode 20 ''c'' JUndefined"

definition node_i :: jsval where
  "node_i = IdentificatorNode 21 ''i'' JUndefined"

definition rho_a_b_c :: "jsval \<Rightarrow> jsval \<Rightarrow> jsval \<Rightarrow> Rho" where
  "rho_a_b_c va vb vc = extend (rho_a_b va vb) node_c vc"

definition count_loop :: jsval where
  "count_loop =
     single_command_FOR 30 31 32
       (DeclarationNode 22 [node_i, expression_a] Declaration_VARIABLE JUndefined)
       (expression_binary 24 (expression_identificator 23 node_i) (JString ''<'') expression_b)
       (single_command_assignment 27 node_i
          (expression_binary 26 (expression_identificator 23 node_i) (JString ''+'')
             (expression_identificator 25 node_c)))
       (single_command_PRINT 28 (expression_identificator 23 node_i))"

section \<open>The for loop as the specification writes it\<close>

text \<open>
  \<^verbatim>\<open>DECLARATION_COMMAND(init_decl, WHILE(cond, COMMAND_COMMAND(body, step)))\<close>: the
  declaration/while form written by hand, its three nodes at any addresses and with
  any blocks.
\<close>

definition hand_expanded_for ::
  "nat \<Rightarrow> nat \<Rightarrow> nat \<Rightarrow> jsval \<Rightarrow> jsval \<Rightarrow> jsval \<Rightarrow> jsval \<Rightarrow> jsval \<Rightarrow> jsval \<Rightarrow> jsval \<Rightarrow> jsval" where
  "hand_expanded_for b1 b2 b3 k1 k2 k3 init_decl cond step body =
     CommandNode b1
       [init_decl,
        CommandNode b2 [cond, CommandNode b3 [body, step] Command_COMMAND_COMMAND k3] Command_WHILE k2]
       Command_DECLARATION_COMMAND k1"

section \<open>The program \<^verbatim>\<open>let : num x = 5; x = x + 1; print x\<close>\<close>

text \<open>
  Its tree: a declaration, then the sequence of the assignment and the print. The
  declaration, the two commands and all that is under them are built by the actions of
  their productions; the two nodes above them are given no block, which execution does
  not read. Every occurrence of \<^verbatim>\<open>x\<close> is a node of its own.
\<close>

definition let_x_program :: jsval where
  "let_x_program =
     CommandNode 16
       [declaration_LET 4 (identificator_IDENTIFICATOR 0 ''x'') (TypeNode 1 Type_NUMBER JUndefined)
          (expression_value 3 (value_NUMBER_VALUE 2 ''5'')),
        CommandNode 15
          [single_command_assignment 11 (identificator_IDENTIFICATOR 5 ''x'')
             (expression_binary 10
                (expression_identificator 7 (identificator_IDENTIFICATOR 6 ''x''))
                (JString ''+'')
                (expression_value 9 (value_NUMBER_VALUE 8 ''1''))),
           single_command_PRINT 14
             (expression_identificator 13 (identificator_IDENTIFICATOR 12 ''x''))]
          Command_COMMAND_COMMAND JUndefined]
       Command_DECLARATION_COMMAND JUndefined"

text \<open>
  The same program with a declaration of two children, the identifier and the
  expression, which is what \<^verbatim>\<open>elaborate\<close> reads. The four occurrences of \<^verbatim>\<open>x\<close> are
  the nodes at the addresses \<open>i\<close> (declaration), \<open>j\<close> (target of the assignment),
  \<open>k\<close> and \<open>l\<close> (the two expressions).
\<close>

definition let_x_program_two_children :: "nat \<Rightarrow> nat \<Rightarrow> nat \<Rightarrow> nat \<Rightarrow> jsval" where
  "let_x_program_two_children i j k l =
     CommandNode 16
       [DeclarationNode 4 [IdentificatorNode i ''x'' JUndefined,
           expression_value 3 (value_NUMBER_VALUE 2 ''5'')] Declaration_VARIABLE JUndefined,
        CommandNode 15
          [single_command_assignment 11 (IdentificatorNode j ''x'' JUndefined)
             (expression_binary 10
                (expression_identificator 7 (IdentificatorNode k ''x'' JUndefined))
                (JString ''+'')
                (expression_value 9 (value_NUMBER_VALUE 8 ''1''))),
           single_command_PRINT 14
             (expression_identificator 13 (IdentificatorNode l ''x'' JUndefined))]
          Command_COMMAND_COMMAND JUndefined]
       Command_DECLARATION_COMMAND JUndefined"

section \<open>Unfolding the three functions on a node\<close>

lemma child_Cons_0: "child (x # xs) 0 = x"
  by (simp add: child_def)

lemma child_Cons_Suc: "child (x # xs) (Suc i) = child xs i"
  by (simp add: child_def)

lemma child_Nil: "child [] i = JUndefined"
  by (simp add: child_def)

lemma child_1: "child (x # xs) 1 = child xs 0"
  by (simp add: child_def)

lemma child_2: "child (x # y # xs) 2 = child xs 0"
  by (simp add: child_def)

lemmas child_simps = child_Cons_0 child_Cons_Suc child_Nil child_1 child_2

lemma evaluate_JObject:
  "evaluate (JObject a kind children ps) rho sigma =
     (if kind = Expression_VALUE then
        (case value_case (child children 0) of
           Some r \<Rightarrow> r
         | None \<Rightarrow> identificator_case children rho sigma)
      else if kind = Expression_IDENTIFICATOR then
        identificator_case children rho sigma
      else if kind = Expression_UNARY_OPERATOR then
        (case evaluate (child children 1) rho sigma of
           Inl e \<Rightarrow> Inl e
         | Inr v \<Rightarrow>
             (case unary_operator (child children 0) v of
                Some r \<Rightarrow> r
              | None \<Rightarrow>
                  binary_case (evaluate (child children 0) rho sigma)
                    (evaluate (child children 2) rho sigma) (child children 1)))
      else if kind = Expression_BINARY_OPERATOR then
        binary_case (evaluate (child children 0) rho sigma)
          (evaluate (child children 2) rho sigma) (child children 1)
      else if kind = Expression_PARENTHESIS then
        evaluate (child children 0) rho sigma
      else Inl (DynamicError UNKNOWN_EXPRESSION))"
  by (subst evaluate.simps) simp

lemma evaluate_not_node:
  "evaluate JUndefined rho sigma = Inl TypeError"
  "evaluate (JBoolean b) rho sigma = Inl (DynamicError UNKNOWN_EXPRESSION)"
  "evaluate (JNumber x) rho sigma = Inl (DynamicError UNKNOWN_EXPRESSION)"
  "evaluate (JString s) rho sigma = Inl (DynamicError UNKNOWN_EXPRESSION)"
  "evaluate (JSymbol l) rho sigma = Inl (DynamicError UNKNOWN_EXPRESSION)"
  by (subst evaluate.simps; simp)+

lemma elaborate_JObject:
  "elaborate (JObject a kind children ps) rho sigma w =
     (if kind = Declaration_NIL then (Inr (rho, sigma), w)
      else if kind = Declaration_VARIABLE then
        (case newLocation w of
           (location, w1) \<Rightarrow>
             (case evaluate (child children 1) rho sigma of
                Inl e \<Rightarrow> (Inl e, w1)
              | Inr v \<Rightarrow>
                  (Inr (extend rho (child children 0) location, extend sigma location v), w1)))
      else if kind = Declaration_CONSTANT then
        (case evaluate (child children 1) rho sigma of
           Inl e \<Rightarrow> (Inl e, w)
         | Inr v \<Rightarrow> (Inr (extend rho (child children 0) v, sigma), w))
      else if kind = Declaration_DECLARATION_DECLARATION then
        (case elaborate (child children 0) rho sigma w of
           (Inl e, w1) \<Rightarrow> (Inl e, w1)
         | (Inr (rho1, sigma1), w1) \<Rightarrow> elaborate (child children 1) rho1 sigma1 w1)
      else (Inl (StaticError UNKNOWN_DECLARATION), w))"
  by (subst elaborate.simps) simp

lemma execute_JObject:
  "execute (Suc n) (JObject a kind children ps) rho sigma w =
     (if kind = Command_NIL then Some (Inr sigma, w)
      else if kind = Command_DECLARATION_COMMAND then
        (case elaborate (child children 0) rho sigma w of
           (Inl e, w1) \<Rightarrow> Some (Inl e, w1)
         | (Inr (rho1, sigma1), w1) \<Rightarrow> execute n (child children 1) rho1 sigma1 w1)
      else if kind = Command_COMMAND_COMMAND then
        (case execute n (child children 0) rho sigma w of
           None \<Rightarrow> None
         | Some (Inl e, w1) \<Rightarrow> Some (Inl e, w1)
         | Some (Inr sigma1, w1) \<Rightarrow> execute n (child children 1) rho sigma1 w1)
      else if kind = Command_ASSIGNMENT then
        (case rho (child children 0) of
           Inl e \<Rightarrow> Some (Inl (StaticError UNDEFINED_IDENTIFICATOR), w)
         | Inr rhoResult \<Rightarrow>
             if isLocation rhoResult then
               (case evaluate (child children 1) rho sigma of
                  Inl e \<Rightarrow> Some (Inl e, w)
                | Inr v \<Rightarrow> Some (Inr (extend sigma rhoResult v), w))
             else Some (Inl (StaticError CONSTANT_REASSIGNMENT), w))
      else if kind = Command_IF then
        (case evaluate (child children 0) rho sigma of
           Inl e \<Rightarrow> Some (Inl e, w)
         | Inr (JBoolean b) \<Rightarrow>
             if b then execute n (child children 1) rho sigma w else Some (Inr sigma, w)
         | Inr _ \<Rightarrow> Some (Inl (StaticError WRONG_TYPE), w))
      else if kind = Command_IF_ELSE then
        (case evaluate (child children 0) rho sigma of
           Inl e \<Rightarrow> Some (Inl e, w)
         | Inr (JBoolean b) \<Rightarrow>
             if b then execute n (child children 1) rho sigma w
             else execute n (child children 2) rho sigma w
         | Inr _ \<Rightarrow> Some (Inl (StaticError WRONG_TYPE), w))
      else if kind = Command_WHILE then
        (case evaluate (child children 0) rho sigma of
           Inl e \<Rightarrow> Some (Inl e, w)
         | Inr (JBoolean b) \<Rightarrow>
             if b then
               (case execute n (child children 1) rho sigma w of
                  None \<Rightarrow> None
                | Some (Inl e, w1) \<Rightarrow> Some (Inl e, w1)
                | Some (Inr sigma1, w1) \<Rightarrow> execute n (JObject a kind children ps) rho sigma1 w1)
             else Some (Inr sigma, w)
         | Inr _ \<Rightarrow> Some (Inl (StaticError WRONG_TYPE), w))
      else if kind = Command_PRINT then
        (case evaluate (child children 0) rho sigma of
           Inl e \<Rightarrow> Some (Inl e, w)
         | Inr v \<Rightarrow> Some (Inr sigma, console_log v w))
      else Some (Inl (DynamicError UNKNOWN_COMMAND), w))"
  by (simp add: execute.simps(2))

lemmas node_defs = CommandNode_def DeclarationNode_def ExpressionNode_def ValueNode_def
  TypeNode_def IdentificatorNode_def value_NUMBER_VALUE_def value_BOOLEAN_VALUE_def
  identificator_IDENTIFICATOR_def expression_value_def expression_identificator_def
  expression_unary_def expression_binary_def declaration_LET_def declaration_CONST_def
  single_command_assignment_def single_command_WHILE_def single_command_PRINT_def
  single_command_FOR_def

text \<open>Every value but \<^verbatim>\<open>NaN\<close> is strictly equal to itself.\<close>

lemma strict_eq_refl: "k \<noteq> JNumber NaN \<Longrightarrow> strict_eq k k"
proof (cases k)
  case (JNumber x)
  assume "k \<noteq> JNumber NaN"
  with JNumber show ?thesis by (cases x) simp_all
qed simp_all

text \<open>Sums of finite numbers, and of \<^verbatim>\<open>NaN\<close>.\<close>

lemma number_add_simps:
  "number_add (Fin a) (Fin b) = (if a + b = 0 then Fin 0 else round_to_double (a + b))"
  "number_add NaN y = NaN"
  "number_add x NaN = NaN"
  by (simp_all add: number_add_def)

section \<open>The unary minus\<close>

text \<open>
  Claim C10. Whatever the operand expression is, when it evaluates to a value \<open>v\<close>,
  the unary operator \<^verbatim>\<open>-\<close> applied to it returns \<open>v\<close> itself, not negated, when \<open>v\<close>
  is a number, and throws the static error \<^verbatim>\<open>WRONG_TYPE\<close> when it is not.
\<close>

theorem unary_minus_returns_operand:
  assumes "evaluate operand rho sigma = Inr v"
  shows "evaluate (JObject a Expression_UNARY_OPERATOR (JString ''-'' # operand # rest) ps) rho sigma =
           (if typeof v = ''number'' then Inr v else Inl (StaticError WRONG_TYPE))"
  using assms by (simp add: evaluate_JObject child_simps unary_operator_def)

text \<open>
  With \<^verbatim>\<open>a\<close> a constant bound to 3: \<^verbatim>\<open>- a\<close> is 3. With \<^verbatim>\<open>a\<close> bound to \<^verbatim>\<open>true\<close>:
  \<^verbatim>\<open>WRONG_TYPE\<close>.
\<close>

theorem unary_minus_returns_operand_witness:
  "evaluate expression_a (rho_a_b (JNumber (Fin 3)) (JNumber (Fin 0))) SIGMA_0
     = Inr (JNumber (Fin 3))
   \<and> evaluate (expression_unary 4 (JString ''-'') expression_a)
        (rho_a_b (JNumber (Fin 3)) (JNumber (Fin 0))) SIGMA_0
     = Inr (JNumber (Fin 3))
   \<and> evaluate (expression_unary 4 (JString ''-'') expression_a)
        (rho_a_b (JBoolean True) (JNumber (Fin 0))) SIGMA_0
     = Inl (StaticError WRONG_TYPE)"
proof -
  have n: "evaluate expression_a (rho_a_b (JNumber (Fin 3)) (JNumber (Fin 0))) SIGMA_0
      = Inr (JNumber (Fin 3))"
    by (simp add: expression_a_def rho_a_b_def node_a_def node_b_def node_defs
        evaluate_JObject child_simps identificator_case_def extend_def isLocation_def)
  have b: "evaluate expression_a (rho_a_b (JBoolean True) (JNumber (Fin 0))) SIGMA_0
      = Inr (JBoolean True)"
    by (simp add: expression_a_def rho_a_b_def node_a_def node_b_def node_defs
        evaluate_JObject child_simps identificator_case_def extend_def isLocation_def)
  show ?thesis
    using n unary_minus_returns_operand [OF n, of 4 "[]" "[(''block'', JUndefined)]"]
      unary_minus_returns_operand [OF b, of 4 "[]" "[(''block'', JUndefined)]"]
    by (simp add: expression_unary_def ExpressionNode_def)
qed

section \<open>Identifiers bound to values, and the binary operators\<close>

lemma evaluate_identificator:
  "evaluate (JObject a Expression_IDENTIFICATOR (x # rest) ps) rho sigma =
     (case rho x of
        Inl e \<Rightarrow> Inl (StaticError UNDEFINED_IDENTIFICATOR)
      | Inr r \<Rightarrow> if isLocation r then sigma r else Inr r)"
  by (simp add: evaluate_JObject child_simps identificator_case_def)

lemma evaluate_binary:
  "evaluate (JObject a Expression_BINARY_OPERATOR (e1 # operator # e2 # rest) ps) rho sigma =
     binary_case (evaluate e1 rho sigma) (evaluate e2 rho sigma) operator"
  by (simp add: evaluate_JObject child_simps)

lemma evaluate_expression_a:
  "\<not> isLocation va \<Longrightarrow> evaluate expression_a (rho_a_b va vb) sigma = Inr va"
  by (simp add: expression_a_def rho_a_b_def node_a_def node_b_def node_defs
      evaluate_identificator extend_def)

lemma evaluate_expression_b:
  "\<not> isLocation vb \<Longrightarrow> evaluate expression_b (rho_a_b va vb) sigma = Inr vb"
  by (simp add: expression_b_def rho_a_b_def node_a_def node_b_def node_defs
      evaluate_identificator extend_def)

section \<open>Literals\<close>

text \<open>
  Claim C2 says that a number literal evaluates to its number and the literals
  \<^verbatim>\<open>true\<close> and \<^verbatim>\<open>false\<close> to the two booleans. The \<^verbatim>\<open>VALUE\<close> case converts
  \<^verbatim>\<open>valueNode.token\<close>, and the parser's value nodes keep the literal's text in
  \<^verbatim>\<open>value\<close>: whatever the text \<open>t\<close> is, a number literal evaluates to \<^verbatim>\<open>NaN\<close> and a
  boolean literal to \<^verbatim>\<open>false\<close>.
\<close>

theorem literal_payload_not_read:
  "evaluate (expression_value a (value_NUMBER_VALUE b t)) rho sigma = Inr (JNumber NaN)
   \<and> evaluate (expression_value a (value_BOOLEAN_VALUE b t)) rho sigma = Inr (JBoolean False)"
  by (simp add: node_defs evaluate_JObject child_simps)

text \<open>
  Were the text kept in \<^verbatim>\<open>token\<close>, a number literal would evaluate to its number,
  but the literal \<^verbatim>\<open>false\<close> to \<^verbatim>\<open>true\<close>: \<^verbatim>\<open>Boolean\<close> of a string that is not empty is
  \<^verbatim>\<open>true\<close>.
\<close>

lemma token_number_literal:
  "evaluate (JObject a Expression_VALUE
       [JObject b Value_NUMBER [] ((''token'', JString ''12.5'') # ps')] ps) rho sigma
     = Inr (JNumber (Fin 12.5))"
  using round_to_double_dyadic [of 25 1]
  by (simp add: evaluate_JObject child_simps StringToNumber_def digit_value_def)

lemma token_false_literal:
  "evaluate (JObject a Expression_VALUE
       [JObject b Value_BOOLEAN [] ((''token'', JString ''false'') # ps')] ps) rho sigma
     = Inr (JBoolean True)"
  by (simp add: evaluate_JObject child_simps)

section \<open>Equality and inequality\<close>

text \<open>
  Both operators compute the same: \<^verbatim>\<open>value1 === value2\<close> when the operands have the
  same type, \<^verbatim>\<open>WRONG_TYPE\<close> otherwise.
\<close>

lemma evaluate_equality_operators:
  assumes "evaluate e1 rho sigma = Inr v1" and "evaluate e2 rho sigma = Inr v2"
  shows "evaluate (JObject a Expression_BINARY_OPERATOR (e1 # JString ''=='' # e2 # rest) ps) rho sigma =
           (if typeof v1 = typeof v2 then Inr (JBoolean (strict_eq v1 v2))
            else Inl (StaticError WRONG_TYPE))"
    and "evaluate (JObject a Expression_BINARY_OPERATOR (e1 # JString ''!='' # e2 # rest) ps) rho sigma =
           (if typeof v1 = typeof v2 then Inr (JBoolean (strict_eq v1 v2))
            else Inl (StaticError WRONG_TYPE))"
  using assms by (simp_all add: evaluate_binary binary_case_def binary_operator_def)

text \<open>
  Claim C3 says that \<^verbatim>\<open>!=\<close> on two operands of the same type returns true iff they
  are not equal. With \<^verbatim>\<open>a\<close> bound to 1 and \<^verbatim>\<open>b\<close> to 2, \<^verbatim>\<open>a != b\<close> evaluates to
  \<^verbatim>\<open>false\<close>.
\<close>

theorem not_equal_of_1_and_2:
  "evaluate (expression_binary 4 expression_a (JString ''!='') expression_b)
     (rho_a_b (JNumber (Fin 1)) (JNumber (Fin 2))) SIGMA_0
   = Inr (JBoolean False)"
  by (simp add: expression_binary_def ExpressionNode_def evaluate_binary evaluate_expression_a
      evaluate_expression_b isLocation_def binary_case_def binary_operator_def)

text \<open>The rest of the claim holds: \<^verbatim>\<open>a == b\<close> there is \<^verbatim>\<open>false\<close>, \<^verbatim>\<open>a == a\<close> is \<^verbatim>\<open>true\<close>,
  and a number against a boolean is \<^verbatim>\<open>WRONG_TYPE\<close> for both operators.\<close>

lemma equal_examples:
  "evaluate (expression_binary 4 expression_a (JString ''=='') expression_b)
     (rho_a_b (JNumber (Fin 1)) (JNumber (Fin 2))) SIGMA_0 = Inr (JBoolean False)"
  "evaluate (expression_binary 4 expression_a (JString ''=='') expression_a)
     (rho_a_b (JNumber (Fin 1)) (JNumber (Fin 2))) SIGMA_0 = Inr (JBoolean True)"
  "evaluate (expression_binary 4 expression_a (JString ''=='') expression_b)
     (rho_a_b (JNumber (Fin 1)) (JBoolean True)) SIGMA_0 = Inl (StaticError WRONG_TYPE)"
  "evaluate (expression_binary 4 expression_a (JString ''!='') expression_b)
     (rho_a_b (JNumber (Fin 1)) (JBoolean True)) SIGMA_0 = Inl (StaticError WRONG_TYPE)"
  by (simp_all add: expression_binary_def ExpressionNode_def evaluate_binary evaluate_expression_a
      evaluate_expression_b isLocation_def binary_case_def binary_operator_def)

section \<open>The three divisions\<close>

lemma number_strict_eq_zero: "number_strict_eq y (Fin 0) \<longleftrightarrow> is_zero y"
  by (cases y) auto

text \<open>
  On two finite numbers that are not zero: the double nearest to the quotient, the
  floor of that double, and the remainder of the division truncated towards zero.
\<close>

lemma finite_division:
  assumes "p \<noteq> 0" and "q \<noteq> 0"
  shows "number_div (Fin p) (Fin q) = round_to_double (p / q)"
    and "Math_floor (number_div (Fin p) (Fin q)) = Math_floor (round_to_double (p / q))"
    and "number_rem (Fin p) (Fin q) =
           (let r = p - q * of_int (Math_trunc (p / q))
            in if r = 0 then signed_zero (p < 0) else Fin r)"
  using assms by (simp_all add: number_div_def number_rem_def)

text \<open>
  Claim C8. When the operands of \<^verbatim>\<open>/\<close>, \<^verbatim>\<open>//\<close> or \<^verbatim>\<open>%\<close> evaluate to the numbers
  \<open>x\<close> and \<open>y\<close>: if \<open>y\<close> is a zero, the dynamic error \<^verbatim>\<open>DIVISION_BY_ZERO\<close> is thrown;
  otherwise \<^verbatim>\<open>/\<close> returns the quotient, \<^verbatim>\<open>//\<close> its floor and \<^verbatim>\<open>%\<close> the remainder.
  When \<open>x\<close> and \<open>y\<close> are the finite numbers \<open>p\<close> and \<open>q\<close>, neither zero, the quotient
  is the double nearest to \<open>p / q\<close>, and the remainder is that of the division
  truncated towards zero.
\<close>

theorem division_operators:
  assumes "evaluate e1 rho sigma = Inr (JNumber x)" and "evaluate e2 rho sigma = Inr (JNumber y)"
  shows "(is_zero y \<longrightarrow>
            evaluate (JObject a Expression_BINARY_OPERATOR (e1 # JString ''/'' # e2 # rest) ps) rho sigma
              = Inl (DynamicError DIVISION_BY_ZERO)
          \<and> evaluate (JObject a Expression_BINARY_OPERATOR (e1 # JString ''//'' # e2 # rest) ps) rho sigma
              = Inl (DynamicError DIVISION_BY_ZERO)
          \<and> evaluate (JObject a Expression_BINARY_OPERATOR (e1 # JString ''%'' # e2 # rest) ps) rho sigma
              = Inl (DynamicError DIVISION_BY_ZERO))
       \<and> (\<not> is_zero y \<longrightarrow>
            evaluate (JObject a Expression_BINARY_OPERATOR (e1 # JString ''/'' # e2 # rest) ps) rho sigma
              = Inr (JNumber (number_div x y))
          \<and> evaluate (JObject a Expression_BINARY_OPERATOR (e1 # JString ''//'' # e2 # rest) ps) rho sigma
              = Inr (JNumber (Math_floor (number_div x y)))
          \<and> evaluate (JObject a Expression_BINARY_OPERATOR (e1 # JString ''%'' # e2 # rest) ps) rho sigma
              = Inr (JNumber (number_rem x y)))
       \<and> (x = Fin p \<and> y = Fin q \<and> p \<noteq> 0 \<and> q \<noteq> 0 \<longrightarrow>
            evaluate (JObject a Expression_BINARY_OPERATOR (e1 # JString ''/'' # e2 # rest) ps) rho sigma
              = Inr (JNumber (round_to_double (p / q)))
          \<and> evaluate (JObject a Expression_BINARY_OPERATOR (e1 # JString ''//'' # e2 # rest) ps) rho sigma
              = Inr (JNumber (Math_floor (round_to_double (p / q))))
          \<and> evaluate (JObject a Expression_BINARY_OPERATOR (e1 # JString ''%'' # e2 # rest) ps) rho sigma
              = Inr (JNumber (let r = p - q * of_int (Math_trunc (p / q))
                               in if r = 0 then signed_zero (p < 0) else Fin r)))"
proof -
  have operators:
    "evaluate (JObject a Expression_BINARY_OPERATOR (e1 # JString ''/'' # e2 # rest) ps) rho sigma
       = (if is_zero y then Inl (DynamicError DIVISION_BY_ZERO) else Inr (JNumber (number_div x y)))"
    "evaluate (JObject a Expression_BINARY_OPERATOR (e1 # JString ''//'' # e2 # rest) ps) rho sigma
       = (if is_zero y then Inl (DynamicError DIVISION_BY_ZERO)
          else Inr (JNumber (Math_floor (number_div x y))))"
    "evaluate (JObject a Expression_BINARY_OPERATOR (e1 # JString ''%'' # e2 # rest) ps) rho sigma
       = (if is_zero y then Inl (DynamicError DIVISION_BY_ZERO) else Inr (JNumber (number_rem x y)))"
    using assms
    by (simp_all add: evaluate_binary binary_case_def binary_operator_def number_strict_eq_zero)
  show ?thesis
    unfolding operators by (auto simp: finite_division)
qed

text \<open>
  With \<^verbatim>\<open>a\<close> and \<^verbatim>\<open>b\<close> bound to 7 and 2, to 7 and each of the two zeros, to 1 and 3,
  where the quotient is rounded, and to \<open>2 ^ 54 + 4\<close> and 3, where the floor is taken
  of the rounded quotient.
\<close>

theorem division_operators_witness:
  "evaluate (expression_binary 4 expression_a (JString ''/'') expression_b)
     (rho_a_b (JNumber (Fin 7)) (JNumber (Fin 2))) SIGMA_0 = Inr (JNumber (Fin (7 / 2)))
   \<and> evaluate (expression_binary 4 expression_a (JString ''//'') expression_b)
     (rho_a_b (JNumber (Fin 7)) (JNumber (Fin 2))) SIGMA_0 = Inr (JNumber (Fin 3))
   \<and> evaluate (expression_binary 4 expression_a (JString ''%'') expression_b)
     (rho_a_b (JNumber (Fin 7)) (JNumber (Fin 2))) SIGMA_0 = Inr (JNumber (Fin 1))
   \<and> evaluate (expression_binary 4 expression_a (JString ''/'') expression_b)
     (rho_a_b (JNumber (Fin 7)) (JNumber (Fin 0))) SIGMA_0 = Inl (DynamicError DIVISION_BY_ZERO)
   \<and> evaluate (expression_binary 4 expression_a (JString ''//'') expression_b)
     (rho_a_b (JNumber (Fin 7)) (JNumber (Fin 0))) SIGMA_0 = Inl (DynamicError DIVISION_BY_ZERO)
   \<and> evaluate (expression_binary 4 expression_a (JString ''%'') expression_b)
     (rho_a_b (JNumber (Fin 7)) (JNumber (Fin 0))) SIGMA_0 = Inl (DynamicError DIVISION_BY_ZERO)
   \<and> evaluate (expression_binary 4 expression_a (JString ''/'') expression_b)
     (rho_a_b (JNumber (Fin 7)) (JNumber NZero)) SIGMA_0 = Inl (DynamicError DIVISION_BY_ZERO)
   \<and> evaluate (expression_binary 4 expression_a (JString ''/'') expression_b)
     (rho_a_b (JNumber (Fin 1)) (JNumber (Fin 3))) SIGMA_0
       = Inr (JNumber (Fin (6004799503160661 / 2 ^ 54)))
   \<and> evaluate (expression_binary 4 expression_a (JString ''//'') expression_b)
     (rho_a_b (JNumber (Fin (2 ^ 54 + 4))) (JNumber (Fin 3))) SIGMA_0
       = Inr (JNumber (Fin 6004799503160663))"
proof -
  have a: "evaluate expression_a (rho_a_b (JNumber x) vb) SIGMA_0 = Inr (JNumber x)" for x vb
    by (simp add: evaluate_expression_a isLocation_def)
  have b: "evaluate expression_b (rho_a_b va (JNumber y)) SIGMA_0 = Inr (JNumber y)" for va y
    by (simp add: evaluate_expression_b isLocation_def)
  have r1: "round_to_double (7 / 2) = Fin (7 / 2)"
    using round_to_double_dyadic [of 7 1] by simp
  have r2: "round_to_double (1 / 3) = Fin (6004799503160661 / 2 ^ 54)"
    by (rule round_to_double_examples)
  have r3: "round_to_double ((2 ^ 54 + 4) / 3) = Fin 6004799503160663"
    using round_to_double_binade [of 52 "(2 ^ 54 + 4) / 3"] by (simp add: round_half_even_def)
  note d = division_operators [where a = 4 and rest = "[]" and ps = "[(''block'', JUndefined)]"
      and ?e1.0 = expression_a and ?e2.0 = expression_b and sigma = SIGMA_0]
  show ?thesis
    using r1 r2 r3
      d [where x = "Fin 7" and y = "Fin 2" and p = 7 and q = 2, OF a b]
      d [where x = "Fin 7" and y = "Fin 0" and p = 7 and q = 0, OF a b]
      d [where x = "Fin 7" and y = NZero and p = 7 and q = 0, OF a b]
      d [where x = "Fin 1" and y = "Fin 3" and p = 1 and q = 3, OF a b]
      d [where x = "Fin (2 ^ 54 + 4)" and y = "Fin 3" and p = "2 ^ 54 + 4" and q = 3, OF a b]
    by (simp add: expression_binary_def ExpressionNode_def Math_trunc_def number_div_def
        number_rem_def)
qed

section \<open>Extending an environment or a store\<close>

text \<open>
  Claim C9. The extension of a map \<open>m\<close> with the key \<open>k\<close> and the value \<open>v\<close> returns
  \<open>v\<close> at \<open>k\<close> and what \<open>m\<close> returns at every other key. The keys of an environment are
  nodes and those of a store are symbols; the statement holds for every key that is
  not the number \<^verbatim>\<open>NaN\<close>. The maps are values: \<open>m\<close> is after the extension what it was
  before, and the extension calls it unchanged.
\<close>

theorem extend_intercepts_new_key:
  "(k \<noteq> JNumber NaN \<longrightarrow> extend m k v k = Inr v)
   \<and> (\<not> strict_eq k' k \<longrightarrow> extend m k v k' = m k')"
  by (simp add: extend_def strict_eq_refl)

text \<open>An environment of one constant, looked up at its node and at another node of the
  same name; a store of one location, looked up at it and at another.\<close>

theorem extend_intercepts_new_key_witness:
  "extend RHO_0 node_a (JNumber (Fin 5)) node_a = Inr (JNumber (Fin 5))
   \<and> extend RHO_0 node_a (JNumber (Fin 5)) (IdentificatorNode 7 ''a'' JUndefined)
       = RHO_0 (IdentificatorNode 7 ''a'' JUndefined)
   \<and> extend SIGMA_0 (JSymbol 0) (JBoolean True) (JSymbol 0) = Inr (JBoolean True)
   \<and> extend SIGMA_0 (JSymbol 0) (JBoolean True) (JSymbol 1) = SIGMA_0 (JSymbol 1)"
  using extend_intercepts_new_key [of node_a RHO_0 "JNumber (Fin 5)" "IdentificatorNode 7 ''a'' JUndefined"]
    extend_intercepts_new_key [of "JSymbol 0" SIGMA_0 "JBoolean True" "JSymbol 1"]
  by (simp add: node_a_def IdentificatorNode_def)

section \<open>Fuel\<close>

text \<open>A call that returns or throws with some fuel does the same with more.\<close>

lemma execute_mono:
  "execute n command rho sigma w = Some r \<Longrightarrow> execute (Suc n) command rho sigma w = Some r"
proof (induction n arbitrary: command rho sigma w r)
  case 0
  then show ?case by simp
next
  case (Suc n)
  show ?case
  proof (cases command)
    case (JObject a kind children ps)
    from Suc.prems show ?thesis
      unfolding JObject
      by (subst execute_JObject, subst (asm) execute_JObject)
        (auto split: if_split_asm sum.split_asm option.split_asm prod.split_asm
          jsval.split_asm dest!: Suc.IH)
  qed (use Suc.prems in \<open>simp_all add: execute.simps(2)\<close>)
qed

lemma execute_more_fuel:
  "execute n command rho sigma w = Some r \<Longrightarrow> n \<le> m \<Longrightarrow> execute m command rho sigma w = Some r"
  by (induction m) (auto simp: le_Suc_eq intro: execute_mono)

section \<open>Assignment\<close>

lemma evaluate_expression_a_location:
  "isLocation va \<Longrightarrow> evaluate expression_a (rho_a_b va vb) sigma = sigma va"
  by (simp add: expression_a_def rho_a_b_def node_a_def node_b_def node_defs
      evaluate_identificator extend_def)

lemma rho_a_b_simps:
  "rho_a_b va vb node_a = Inr va"
  "rho_a_b va vb node_b = Inr vb"
  "rho_a_b va vb (IdentificatorNode 9 ''a'' JUndefined) = Inl (Thrown (JString ''undefined''))"
  by (simp_all add: rho_a_b_def node_a_def node_b_def node_defs extend_def RHO_0_def)

text \<open>
  Claim C6. An assignment under \<open>rho\<close> and \<open>sigma\<close>: when \<open>rho\<close> throws at the
  identifier, the static error \<^verbatim>\<open>UNDEFINED_IDENTIFICATOR\<close>; when \<open>rho\<close> binds it to a
  value that is not a location, the static error \<^verbatim>\<open>CONSTANT_REASSIGNMENT\<close>; when
  \<open>rho\<close> binds it to a location \<open>l\<close> and the expression evaluates to \<open>v\<close>, the store
  \<open>sigma\<close> extended at \<open>l\<close> with \<open>v\<close>. Nothing is printed.
\<close>

theorem assignment_cases:
  "(rho identificator = Inl e \<longrightarrow>
      execute (Suc n) (JObject a Command_ASSIGNMENT (identificator # expression # rest) ps) rho sigma w
        = Some (Inl (StaticError UNDEFINED_IDENTIFICATOR), w))
   \<and> (rho identificator = Inr c \<and> \<not> isLocation c \<longrightarrow>
      execute (Suc n) (JObject a Command_ASSIGNMENT (identificator # expression # rest) ps) rho sigma w
        = Some (Inl (StaticError CONSTANT_REASSIGNMENT), w))
   \<and> (rho identificator = Inr l \<and> isLocation l \<and> evaluate expression rho sigma = Inr v \<longrightarrow>
      execute (Suc n) (JObject a Command_ASSIGNMENT (identificator # expression # rest) ps) rho sigma w
        = Some (Inr (extend sigma l v), w))"
  by (simp add: execute_JObject child_simps)

text \<open>
  \<^verbatim>\<open>a\<close> is a variable at the location 0 and \<^verbatim>\<open>b\<close> the constant 1: an assignment to
  another node named \<^verbatim>\<open>a\<close>, to \<^verbatim>\<open>b\<close>, and to \<^verbatim>\<open>a\<close>.
\<close>

theorem assignment_cases_witness:
  "execute 1 (single_command_assignment 5 (IdentificatorNode 9 ''a'' JUndefined) expression_b)
      (rho_a_b (JSymbol 0) (JNumber (Fin 1))) (sigma_a (JNumber (Fin 0))) world_0
     = Some (Inl (StaticError UNDEFINED_IDENTIFICATOR), world_0)
   \<and> execute 1 (single_command_assignment 5 node_b expression_b)
      (rho_a_b (JSymbol 0) (JNumber (Fin 1))) (sigma_a (JNumber (Fin 0))) world_0
     = Some (Inl (StaticError CONSTANT_REASSIGNMENT), world_0)
   \<and> execute 1 (single_command_assignment 5 node_a expression_b)
      (rho_a_b (JSymbol 0) (JNumber (Fin 1))) (sigma_a (JNumber (Fin 0))) world_0
     = Some (Inr (extend (sigma_a (JNumber (Fin 0))) (JSymbol 0) (JNumber (Fin 1))), world_0)"
proof -
  let ?rho = "rho_a_b (JSymbol 0) (JNumber (Fin 1))"
  let ?sigma = "sigma_a (JNumber (Fin 0))"
  have b: "evaluate expression_b ?rho ?sigma = Inr (JNumber (Fin 1))"
    by (simp add: evaluate_expression_b isLocation_def)
  show ?thesis
    using b
      assignment_cases [where rho = ?rho and sigma = ?sigma and w = world_0 and n = 0 and a = 5
        and identificator = "IdentificatorNode 9 ''a'' JUndefined" and expression = expression_b
        and rest = "[]" and ps = "[(''block'', JUndefined)]"
        and e = "Thrown (JString ''undefined'')"]
      assignment_cases [where rho = ?rho and sigma = ?sigma and w = world_0 and n = 0 and a = 5
        and identificator = node_b and expression = expression_b
        and rest = "[]" and ps = "[(''block'', JUndefined)]" and c = "JNumber (Fin 1)"]
      assignment_cases [where rho = ?rho and sigma = ?sigma and w = world_0 and n = 0 and a = 5
        and identificator = node_a and expression = expression_b
        and rest = "[]" and ps = "[(''block'', JUndefined)]" and l = "JSymbol 0"
        and v = "JNumber (Fin 1)"]
    by (simp add: single_command_assignment_def CommandNode_def rho_a_b_simps isLocation_def)
qed

section \<open>The while loop\<close>

text \<open>
  Claim C7. A \<^verbatim>\<open>WHILE\<close> node under \<open>rho\<close> and \<open>sigma\<close>: when the condition
  evaluates to a value that is not a boolean, the static error \<^verbatim>\<open>WRONG_TYPE\<close>; when
  it evaluates to \<^verbatim>\<open>false\<close>, the store \<open>sigma\<close> unchanged and nothing printed; when it
  evaluates to \<^verbatim>\<open>true\<close> and the body returns the store \<open>sigma1\<close>, what the same node
  does under \<open>rho\<close> and \<open>sigma1\<close>.
\<close>

theorem while_cases:
  "(evaluate condition rho sigma = Inr v \<and> typeof v \<noteq> ''boolean'' \<longrightarrow>
      execute (Suc n) (JObject a Command_WHILE (condition # body # rest) ps) rho sigma w
        = Some (Inl (StaticError WRONG_TYPE), w))
   \<and> (evaluate condition rho sigma = Inr (JBoolean False) \<longrightarrow>
      execute (Suc n) (JObject a Command_WHILE (condition # body # rest) ps) rho sigma w
        = Some (Inr sigma, w))
   \<and> (evaluate condition rho sigma = Inr (JBoolean True)
        \<and> execute n body rho sigma w = Some (Inr sigma1, w1) \<longrightarrow>
      execute (Suc n) (JObject a Command_WHILE (condition # body # rest) ps) rho sigma w
        = execute n (JObject a Command_WHILE (condition # body # rest) ps) rho sigma1 w1)"
  by (cases v) (simp_all add: execute_JObject child_simps)

lemma loop_condition_value:
  "sigma (JSymbol 0) = Inr (JNumber (Fin x)) \<Longrightarrow>
   evaluate loop_condition (rho_a_b (JSymbol 0) (JNumber (Fin 1))) sigma = Inr (JBoolean (x < 1))"
  by (simp add: loop_condition_def expression_binary_def ExpressionNode_def evaluate_binary
      evaluate_expression_a_location evaluate_expression_b isLocation_def
      binary_case_def binary_operator_def)

lemma loop_body_result:
  "execute (Suc (Suc n)) loop_body (rho_a_b (JSymbol 0) (JNumber (Fin 1))) (sigma_a (JNumber (Fin 0))) w
     = Some (Inr (extend (sigma_a (JNumber (Fin 0))) (JSymbol 0) (JNumber (Fin 1))),
             console_log (JNumber (Fin 0)) w)"
  by (simp add: loop_body_def single_command_PRINT_def single_command_assignment_def
      CommandNode_def expression_binary_def ExpressionNode_def execute_JObject child_simps
      evaluate_binary rho_a_b_simps isLocation_def evaluate_expression_a_location
      evaluate_expression_b sigma_a_def extend_def binary_case_def binary_operator_def
      number_add_simps round_to_double_simps)

text \<open>
  \<^verbatim>\<open>while a < b do { print a; a = a + b }\<close> from \<^verbatim>\<open>a\<close> = 0, with \<^verbatim>\<open>b\<close> the constant
  1: one turn, which prints 0 and leaves 1 in \<^verbatim>\<open>a\<close>. And \<^verbatim>\<open>while b do ...\<close>.
\<close>

theorem while_cases_witness:
  "execute 3 (single_command_WHILE 9 loop_condition loop_body)
      (rho_a_b (JSymbol 0) (JNumber (Fin 1))) (sigma_a (JNumber (Fin 0))) world_0
     = Some (Inr (extend (sigma_a (JNumber (Fin 0))) (JSymbol 0) (JNumber (Fin 1))),
             console_log (JNumber (Fin 0)) world_0)
   \<and> execute 1 (single_command_WHILE 9 expression_b loop_body)
      (rho_a_b (JSymbol 0) (JNumber (Fin 1))) (sigma_a (JNumber (Fin 0))) world_0
     = Some (Inl (StaticError WRONG_TYPE), world_0)"
proof -
  let ?rho = "rho_a_b (JSymbol 0) (JNumber (Fin 1))"
  let ?s0 = "sigma_a (JNumber (Fin 0))"
  let ?s1 = "extend ?s0 (JSymbol 0) (JNumber (Fin 1))"
  let ?w1 = "console_log (JNumber (Fin 0)) world_0"
  let ?ps = "[(''block'', JUndefined)]"
  have c0: "evaluate loop_condition ?rho ?s0 = Inr (JBoolean True)"
    using loop_condition_value [of ?s0 0] by (simp add: sigma_a_def extend_def)
  have c1: "evaluate loop_condition ?rho ?s1 = Inr (JBoolean False)"
    using loop_condition_value [of ?s1 1] by (simp add: extend_def)
  have b: "evaluate expression_b ?rho ?s0 = Inr (JNumber (Fin 1))"
    by (simp add: evaluate_expression_b isLocation_def)
  have body: "execute (Suc (Suc 0)) loop_body ?rho ?s0 world_0 = Some (Inr ?s1, ?w1)"
    by (rule loop_body_result)
  show ?thesis
    using c0 c1 b body
      while_cases [where condition = loop_condition and body = loop_body and rho = ?rho
        and sigma = ?s0 and w = world_0 and n = "Suc (Suc 0)" and a = 9 and rest = "[]"
        and ps = ?ps and ?sigma1.0 = ?s1 and ?w1.0 = ?w1]
      while_cases [where condition = loop_condition and body = loop_body and rho = ?rho
        and sigma = ?s1 and w = ?w1 and n = "Suc 0" and a = 9 and rest = "[]" and ps = ?ps]
      while_cases [where condition = expression_b and body = loop_body and rho = ?rho
        and sigma = ?s0 and w = world_0 and n = 0 and a = 9 and rest = "[]" and ps = ?ps
        and v = "JNumber (Fin 1)"]
    by (simp add: single_command_WHILE_def CommandNode_def numeral_3_eq_3)
qed

section \<open>The for loop\<close>

text \<open>What a node does depends neither on its address nor on its other properties.\<close>

lemma execute_address_irrelevant:
  "execute n (JObject a kind children ps) rho sigma w =
   execute n (JObject a' kind children ps') rho sigma w"
proof (induction n arbitrary: rho sigma w)
  case 0
  show ?case by simp
next
  case (Suc n)
  show ?case
    using Suc.IH
    by (auto simp: execute_JObject split: sum.splits option.splits prod.splits jsval.splits)
qed

text \<open>Two loops with the same condition, whose bodies do the same, do the same.\<close>

lemma execute_WHILE_cong:
  assumes body: "\<And>n rho sigma w. execute n body rho sigma w = execute n body' rho sigma w"
  shows "execute n (JObject a Command_WHILE (condition # body # rest) ps) rho sigma w =
         execute n (JObject a' Command_WHILE (condition # body' # rest') ps') rho sigma w"
proof (induction n arbitrary: sigma w)
  case 0
  show ?case by simp
next
  case (Suc n)
  show ?case
    by (auto simp: execute_JObject child_simps body Suc.IH
        split: sum.splits option.splits prod.splits jsval.splits)
qed

text \<open>
  Claim C5. The action of the \<^verbatim>\<open>for\<close> production builds
  \<^verbatim>\<open>DECLARATION_COMMAND(init_decl, WHILE(cond, COMMAND_COMMAND(body, step)))\<close>, and
  executing it gives what executing the declaration/while form written by hand gives:
  the same store or error, and the same printed values, with any fuel.
\<close>

theorem for_desugaring:
  "single_command_FOR a1 a2 a3 init_decl cond step body =
     hand_expanded_for a1 a2 a3 JUndefined JUndefined JUndefined init_decl cond step body
   \<and> execute n (single_command_FOR a1 a2 a3 init_decl cond step body) rho sigma w =
     execute n (hand_expanded_for b1 b2 b3 k1 k2 k3 init_decl cond step body) rho sigma w"
proof
  show "single_command_FOR a1 a2 a3 init_decl cond step body =
     hand_expanded_for a1 a2 a3 JUndefined JUndefined JUndefined init_decl cond step body"
    by (simp add: single_command_FOR_def hand_expanded_for_def)
next
  have inner: "execute n (CommandNode a3 [body, step] Command_COMMAND_COMMAND JUndefined) rho sigma w =
     execute n (CommandNode b3 [body, step] Command_COMMAND_COMMAND k3) rho sigma w" for n rho sigma w
    unfolding CommandNode_def by (rule execute_address_irrelevant)
  have loop: "execute n
       (CommandNode a2 [cond, CommandNode a3 [body, step] Command_COMMAND_COMMAND JUndefined]
          Command_WHILE JUndefined) rho sigma w =
     execute n
       (CommandNode b2 [cond, CommandNode b3 [body, step] Command_COMMAND_COMMAND k3]
          Command_WHILE k2) rho sigma w" for n rho sigma w
    unfolding CommandNode_def [of a2] CommandNode_def [of b2]
    by (rule execute_WHILE_cong) (rule inner)
  show "execute n (single_command_FOR a1 a2 a3 init_decl cond step body) rho sigma w =
     execute n (hand_expanded_for b1 b2 b3 k1 k2 k3 init_decl cond step body) rho sigma w"
  proof (cases n)
    case 0
    then show ?thesis by simp
  next
    case (Suc m)
    show ?thesis
      unfolding Suc single_command_FOR_def hand_expanded_for_def CommandNode_def [of a1]
        CommandNode_def [of b1]
      by (simp add: execute_JObject child_simps loop split: prod.splits sum.splits)
  qed
qed

text \<open>
  A loop that runs: with \<^verbatim>\<open>a\<close>, \<^verbatim>\<open>b\<close> and \<^verbatim>\<open>c\<close> the constants 0, 3 and 1, the loop
  \<^verbatim>\<open>for (let i = a, i < b, i = i + c) do print i\<close> returns a store and has printed 0,
  1 and 2.
\<close>

lemma count_loop_prints:
  "map_option (\<lambda>(r, w). (isl r, out w))
     (execute 6 count_loop (rho_a_b_c (JNumber (Fin 0)) (JNumber (Fin 3)) (JNumber (Fin 1)))
        SIGMA_0 world_0)
   = Some (False, [JNumber (Fin 0), JNumber (Fin 1), JNumber (Fin 2)])"
  by (simp add: count_loop_def node_defs eval_nat_numeral execute_JObject elaborate_JObject
      evaluate_JObject child_simps newLocation_def world_0_def console_log_def
      rho_a_b_c_def rho_a_b_def node_a_def node_b_def node_c_def node_i_def expression_a_def
      expression_b_def extend_def RHO_0_def SIGMA_0_def identificator_case_def isLocation_def
      binary_case_def binary_operator_def number_add_simps round_to_double_simps)

section \<open>Identifiers are node objects\<close>

text \<open>
  Claim C4. The maps that \<^verbatim>\<open>extend\<close> builds compare keys with \<^verbatim>\<open>===\<close>, and the key
  of a binding is the identifier's node, in \<^verbatim>\<open>elaborate\<close>, in \<^verbatim>\<open>evaluate\<close> and in an
  assignment: for two nodes \<open>X\<close> and \<open>X'\<close> of the same name at different addresses,
  a binding of \<open>X\<close> is found at \<open>X\<close> and not at \<open>X'\<close>, where the lookup goes on to the
  map underneath.
\<close>

theorem identifiers_are_node_objects:
  assumes "X = IdentificatorNode a name block" and "X' = IdentificatorNode a' name block'"
    and "a' \<noteq> a"
  shows "\<not> strict_eq X' X \<and> strict_eq X X
       \<and> extend m X r X = Inr r
       \<and> extend m X r X' = m X'
       \<and> (evaluate e rho sigma = Inr v \<longrightarrow>
            elaborate (JObject d Declaration_CONSTANT (X # e # rest) ps) rho sigma w
              = (Inr (extend rho X v, sigma), w))
       \<and> (evaluate e rho sigma = Inr v \<longrightarrow>
            elaborate (JObject d Declaration_VARIABLE (X # e # rest) ps) rho sigma w
              = (Inr (extend rho X (JSymbol (next_location w)),
                      extend sigma (JSymbol (next_location w)) v),
                 w\<lparr>next_location := Suc (next_location w)\<rparr>))
       \<and> evaluate (JObject c Expression_IDENTIFICATOR (X' # rest) ps) (extend RHO_0 X r) sigma
            = Inl (StaticError UNDEFINED_IDENTIFICATOR)
       \<and> execute (Suc n) (JObject c Command_ASSIGNMENT (X' # e # rest) ps) (extend RHO_0 X r) sigma w
            = Some (Inl (StaticError UNDEFINED_IDENTIFICATOR), w)
       \<and> (\<not> isLocation r \<longrightarrow>
            evaluate (JObject c Expression_IDENTIFICATOR (X # rest) ps) (extend RHO_0 X r) sigma
              = Inr r)
       \<and> (isLocation r \<and> evaluate e (extend RHO_0 X r) sigma = Inr v \<longrightarrow>
            execute (Suc n) (JObject c Command_ASSIGNMENT (X # e # rest) ps) (extend RHO_0 X r) sigma w
              = Some (Inr (extend sigma r v), w))"
  using assms
  by (simp add: IdentificatorNode_def extend_def RHO_0_def elaborate_JObject child_simps
      newLocation_def evaluate_identificator execute_JObject)

text \<open>
  \<^verbatim>\<open>a\<close> bound to the location 0, then to the constant 5, and another node named
  \<^verbatim>\<open>a\<close> at the address 7.
\<close>

theorem identifiers_are_node_objects_witness:
  "\<not> strict_eq (IdentificatorNode 7 ''a'' JUndefined) node_a
   \<and> elaborate (JObject 3 Declaration_CONSTANT [node_a, expression_a] [])
        (extend RHO_0 node_a (JSymbol 0)) (sigma_a (JNumber (Fin 0))) world_0
       = (Inr (extend (extend RHO_0 node_a (JSymbol 0)) node_a (JNumber (Fin 0)),
               sigma_a (JNumber (Fin 0))), world_0)
   \<and> evaluate (JObject 8 Expression_IDENTIFICATOR [IdentificatorNode 7 ''a'' JUndefined] [])
        (extend RHO_0 node_a (JSymbol 0)) (sigma_a (JNumber (Fin 0)))
       = Inl (StaticError UNDEFINED_IDENTIFICATOR)
   \<and> execute 1 (JObject 8 Command_ASSIGNMENT [IdentificatorNode 7 ''a'' JUndefined, expression_a] [])
        (extend RHO_0 node_a (JSymbol 0)) (sigma_a (JNumber (Fin 0))) world_0
       = Some (Inl (StaticError UNDEFINED_IDENTIFICATOR), world_0)
   \<and> execute 1 (JObject 8 Command_ASSIGNMENT [node_a, expression_a] [])
        (extend RHO_0 node_a (JSymbol 0)) (sigma_a (JNumber (Fin 0))) world_0
       = Some (Inr (extend (sigma_a (JNumber (Fin 0))) (JSymbol 0) (JNumber (Fin 0))), world_0)
   \<and> evaluate (JObject 8 Expression_IDENTIFICATOR [node_a] [])
        (extend RHO_0 node_a (JNumber (Fin 5))) (sigma_a (JNumber (Fin 0)))
       = Inr (JNumber (Fin 5))"
proof -
  let ?X' = "IdentificatorNode 7 ''a'' JUndefined"
  let ?rho = "extend RHO_0 node_a (JSymbol 0)"
  let ?sigma = "sigma_a (JNumber (Fin 0))"
  have a: "evaluate expression_a ?rho ?sigma = Inr (JNumber (Fin 0))"
    by (simp add: expression_a_def expression_identificator_def ExpressionNode_def
        evaluate_identificator extend_def node_a_def IdentificatorNode_def isLocation_def
        sigma_a_def)
  have d: "(7::nat) \<noteq> 0" by simp
  note at_location = identifiers_are_node_objects [OF node_a_def refl d,
      where r = "JSymbol 0" and rho = ?rho and sigma = ?sigma and e = expression_a
        and v = "JNumber (Fin 0)" and w = world_0 and n = 0 and rest = "[]" and ps = "[]"
        and d = 3 and c = 8 and m = RHO_0]
  note at_value = identifiers_are_node_objects [OF node_a_def refl d,
      where r = "JNumber (Fin 5)" and sigma = ?sigma and rest = "[]" and ps = "[]" and c = 8]
  show ?thesis
    using a at_location at_value by (simp add: isLocation_def)
qed

section \<open>Running the program\<close>

text \<open>
  Claim C1 says that the program prints 6 and raises no error. The declaration's
  children are the identifier, the type and the expression; \<^verbatim>\<open>elaborate\<close> evaluates
  the second one, the type node: nothing is printed and the run ends with the
  dynamic error \<^verbatim>\<open>UNKNOWN_EXPRESSION\<close>.
\<close>

theorem let_x_program_fails:
  "run (Suc n) let_x_program = Some ([], Reported (DynamicError UNKNOWN_EXPRESSION))"
  by (simp add: let_x_program_def run_def node_defs execute_JObject elaborate_JObject
      evaluate_JObject child_simps newLocation_def world_0_def)

text \<open>With the children in the other grammar file's order (type, identifier, expression), the
  identifier node is evaluated, and it has no children.\<close>

lemma let_x_old_order:
  "elaborate (declaration_LET_type_first d (JObject t Type_NUMBER [] [])
       (JObject i Expression_IDENTIFICATOR [] ps) e) RHO_0 SIGMA_0 w
     = (Inl (StaticError UNDEFINED_IDENTIFICATOR), w\<lparr>next_location := Suc (next_location w)\<rparr>)"
  by (simp add: declaration_LET_type_first_def elaborate_JObject evaluate_JObject child_simps
      newLocation_def identificator_case_def RHO_0_def)

text \<open>With the two children \<^verbatim>\<open>elaborate\<close> reads, the assignment's \<^verbatim>\<open>x\<close> is another node
  than the declaration's.\<close>

lemma let_x_program_distinct_nodes:
  "j \<noteq> i \<Longrightarrow>
   run (Suc (Suc (Suc n))) (let_x_program_two_children i j k l)
     = Some ([], Reported (StaticError UNDEFINED_IDENTIFICATOR))"
  by (simp add: let_x_program_two_children_def run_def node_defs execute_JObject
      elaborate_JObject evaluate_JObject child_simps newLocation_def world_0_def extend_def
      RHO_0_def)

text \<open>With one node for every occurrence of \<^verbatim>\<open>x\<close>, the literals are \<^verbatim>\<open>NaN\<close>.\<close>

lemma let_x_program_one_node:
  "run (Suc (Suc (Suc n))) (let_x_program_two_children i i i i)
     = Some ([JNumber NaN], Completed)"
  by (simp add: let_x_program_two_children_def run_def node_defs execute_JObject
      elaborate_JObject evaluate_JObject child_simps newLocation_def world_0_def extend_def
      RHO_0_def SIGMA_0_def identificator_case_def isLocation_def binary_case_def
      binary_operator_def console_log_def number_add_simps)

end
